theory Spec2Isabelle
  imports Main "HOL-Library.Word" "HOL-Library.Sublist"
begin

section \<open>Values of the program\<close>

text \<open>
  The server of \<^verbatim>\<open>src/server.py\<close> is one class, \<^verbatim>\<open>ClientHandler\<close>, whose methods are
  called by the event loop for one connection. Python's \<^verbatim>\<open>str\<close> is a sequence of Unicode
  code points and \<^verbatim>\<open>bytes\<close> a sequence of octets, and the program converts between the two,
  so both are kept apart here.
\<close>

type_synonym str = "nat list"
type_synonym bytes = "8 word list"

text \<open>An ASCII literal of the source, as code points.\<close>

definition str_of :: "string \<Rightarrow> str" where
  "str_of cs = map of_char cs"

text \<open>The exceptions the methods can let escape or catch.\<close>

datatype pye = AttributeError | KeyError | TypeError | ValueError

text \<open>A call either returns a value or raises.\<close>

datatype 'a res = Ret 'a | Raise pye

text \<open>
  What \<^verbatim>\<open>json.loads\<close> returns: \<^verbatim>\<open>None\<close>, a bool, an int, a float (kept as the numeral
  it was read from), a str, a list or a dict. A dict keeps its items in order; its keys are
  distinct.
\<close>

datatype json =
    JNull
  | JBool bool
  | JInt int
  | JFloat str
  | JStr str
  | JArr "json list"
  | JObj "(str \<times> json) list"

type_synonym pubkey = nat
type_synonym privkey = nat

text \<open>
  The library functions the program calls and that are not part of the repository. Each is
  a parameter of the model: \<open>None\<close> (or \<open>Inl\<close>) stands for the call raising.
  \<^item> \<open>json_loads\<close>: \<^verbatim>\<open>json.loads\<close> on a str;
  \<^item> \<open>b64decode\<close>: \<^verbatim>\<open>base64.b64decode\<close> on a str;
  \<^item> \<open>unicode_isalnum\<close>, \<open>unicode_upper\<close>: the Unicode database on a code point beyond
    ASCII (is it alphanumeric, and the code points \<^verbatim>\<open>str.upper\<close> replaces it by);
  \<^item> \<open>load_pem_public_key\<close>, \<open>exchange\<close>, \<open>hkdf_derive\<close>: the calls of
    \<^verbatim>\<open>cryptography\<close> made by \<^verbatim>\<open>get_key\<close>.
\<close>

record lib =
  json_loads :: "str \<Rightarrow> json option"
  b64decode :: "str \<Rightarrow> bytes option"
  unicode_isalnum :: "nat \<Rightarrow> bool"
  unicode_upper :: "nat \<Rightarrow> str"
  load_pem_public_key :: "str \<Rightarrow> pye + pubkey"
  exchange :: "privkey \<Rightarrow> pubkey \<Rightarrow> pye + bytes"
  hkdf_derive :: "bytes \<Rightarrow> bytes"

subsection \<open>Operations of Python on these values\<close>

text \<open>
  \<^verbatim>\<open>d.get(k)\<close> (\<^verbatim>\<open>None\<close> for a missing key), \<^verbatim>\<open>d.get(k, v)\<close>, \<^verbatim>\<open>d[k]\<close> (which raises
  \<^verbatim>\<open>KeyError\<close> for a missing key) and \<^verbatim>\<open>k in d\<close> on a dict.
\<close>

definition dict_get :: "(str \<times> json) list \<Rightarrow> str \<Rightarrow> json" where
  "dict_get d k = (case map_of d k of None \<Rightarrow> JNull | Some v \<Rightarrow> v)"

definition dict_get_default :: "(str \<times> json) list \<Rightarrow> str \<Rightarrow> json \<Rightarrow> json" where
  "dict_get_default d k v0 = (case map_of d k of None \<Rightarrow> v0 | Some v \<Rightarrow> v)"

definition dict_index :: "(str \<times> json) list \<Rightarrow> str \<Rightarrow> pye + json" where
  "dict_index d k = (case map_of d k of None \<Rightarrow> Inl KeyError | Some v \<Rightarrow> Inr v)"

definition dict_has :: "(str \<times> json) list \<Rightarrow> str \<Rightarrow> bool" where
  "dict_has d k = (k \<in> fst ` set d)"

text \<open>
  \<^verbatim>\<open>x in c\<close> for a str \<open>x\<close>: membership in a list, substring of a str, key of a dict;
  any other container operand raises \<^verbatim>\<open>TypeError\<close>.
\<close>

definition is_substring :: "str \<Rightarrow> str \<Rightarrow> bool" where
  "is_substring x s = (\<exists>i \<in> set (upt 0 (Suc (length s))). prefix x (drop i s))"

fun py_in :: "str \<Rightarrow> json \<Rightarrow> pye + bool" where
  "py_in x (JArr xs) = Inr (JStr x \<in> set xs)"
| "py_in x (JStr s) = Inr (is_substring x s)"
| "py_in x (JObj d) = Inr (dict_has d x)"
| "py_in x JNull = Inl TypeError"
| "py_in x (JBool b) = Inl TypeError"
| "py_in x (JInt n) = Inl TypeError"
| "py_in x (JFloat f) = Inl TypeError"

text \<open>
  \<^verbatim>\<open>bytes.decode()\<close>: strict UTF-8. A lead octet announces one to three continuation
  octets (\<open>0x80\<close> to \<open>0xBF\<close>); overlong forms, surrogates and code points beyond
  \<open>0x10FFFF\<close> are refused, as is a sequence cut short. \<open>None\<close> is \<^verbatim>\<open>UnicodeDecodeError\<close>.
\<close>

definition is_cont :: "8 word \<Rightarrow> bool" where
  "is_cont b = (0x80 \<le> b \<and> b \<le> 0xBF)"

definition cp2 :: "8 word \<Rightarrow> 8 word \<Rightarrow> nat" where
  "cp2 b0 b1 = (unat b0 - 0xC0) * 64 + (unat b1 - 0x80)"

definition cp3 :: "8 word \<Rightarrow> 8 word \<Rightarrow> 8 word \<Rightarrow> nat" where
  "cp3 b0 b1 b2 = (unat b0 - 0xE0) * 4096 + (unat b1 - 0x80) * 64 + (unat b2 - 0x80)"

definition cp4 :: "8 word \<Rightarrow> 8 word \<Rightarrow> 8 word \<Rightarrow> 8 word \<Rightarrow> nat" where
  "cp4 b0 b1 b2 b3 =
     (unat b0 - 0xF0) * 262144 + (unat b1 - 0x80) * 4096 + (unat b2 - 0x80) * 64 + (unat b3 - 0x80)"

fun utf8_decode :: "bytes \<Rightarrow> str option" where
  "utf8_decode [] = Some []"
| "utf8_decode (b0 # bs) =
     (if b0 < 0x80 then map_option ((#) (unat b0)) (utf8_decode bs)
      else if 0xC2 \<le> b0 \<and> b0 \<le> 0xDF then
        (case bs of
           b1 # r \<Rightarrow>
             if is_cont b1 then map_option ((#) (cp2 b0 b1)) (utf8_decode r) else None
         | _ \<Rightarrow> None)
      else if 0xE0 \<le> b0 \<and> b0 \<le> 0xEF then
        (case bs of
           b1 # b2 # r \<Rightarrow>
             if is_cont b1 \<and> is_cont b2 \<and> 0x800 \<le> cp3 b0 b1 b2
                \<and> (cp3 b0 b1 b2 < 0xD800 \<or> 0xDFFF < cp3 b0 b1 b2)
             then map_option ((#) (cp3 b0 b1 b2)) (utf8_decode r) else None
         | _ \<Rightarrow> None)
      else if 0xF0 \<le> b0 \<and> b0 \<le> 0xF4 then
        (case bs of
           b1 # b2 # b3 # r \<Rightarrow>
             if is_cont b1 \<and> is_cont b2 \<and> is_cont b3 \<and> 0x10000 \<le> cp4 b0 b1 b2 b3
                \<and> cp4 b0 b1 b2 b3 \<le> 0x10FFFF
             then map_option ((#) (cp4 b0 b1 b2 b3)) (utf8_decode r) else None
         | _ \<Rightarrow> None)
      else None)"

text \<open>\<^verbatim>\<open>s.find(sub)\<close>: the first index where \<open>sub\<close> occurs in \<open>s\<close>, or \<open>-1\<close>.\<close>

fun py_find :: "str \<Rightarrow> str \<Rightarrow> int" where
  "py_find [] sub = (if sub = [] then 0 else - 1)"
| "py_find (c # cs) sub =
     (if prefix sub (c # cs) then 0
      else (let r = py_find cs sub in if r < 0 then - 1 else r + 1))"

text \<open>
  \<^verbatim>\<open>s.strip()\<close> removes the white space of both ends; for a str this is the Unicode white
  space: the ASCII controls 9 to 13 and 28 to 31, the space, and the separators beyond ASCII.
\<close>

definition is_space :: "nat \<Rightarrow> bool" where
  "is_space c =
     ((9 \<le> c \<and> c \<le> 13) \<or> (28 \<le> c \<and> c \<le> 32) \<or> c = 0x85 \<or> c = 0xA0 \<or> c = 0x1680
      \<or> (0x2000 \<le> c \<and> c \<le> 0x200A) \<or> c = 0x2028 \<or> c = 0x2029 \<or> c = 0x202F
      \<or> c = 0x205F \<or> c = 0x3000)"

definition py_strip :: "str \<Rightarrow> str" where
  "py_strip s = rev (dropWhile is_space (rev (dropWhile is_space s)))"

text \<open>
  \<^verbatim>\<open>s.upper()\<close> works code point by code point: an ASCII lower-case letter becomes its
  capital, any other ASCII code point stays, and the Unicode database says what replaces a
  code point beyond ASCII.
\<close>

definition upper_char :: "lib \<Rightarrow> nat \<Rightarrow> str" where
  "upper_char L c =
     (if 97 \<le> c \<and> c \<le> 122 then [c - 32] else if c < 128 then [c] else unicode_upper L c)"

definition py_upper :: "lib \<Rightarrow> str \<Rightarrow> str" where
  "py_upper L s = concat (map (upper_char L) s)"

text \<open>
  The class \<^verbatim>\<open>\w\<close> of a str pattern: the underscore and the alphanumeric code points, and
  \<^verbatim>\<open>re.sub(r'[^\w\.]', '', x)\<close>, which deletes every code point that is neither in \<^verbatim>\<open>\w\<close>
  nor a dot, and raises \<^verbatim>\<open>TypeError\<close> when \<open>x\<close> is not a str.
\<close>

definition is_word :: "lib \<Rightarrow> nat \<Rightarrow> bool" where
  "is_word L c =
     (if c < 128 then (48 \<le> c \<and> c \<le> 57) \<or> (65 \<le> c \<and> c \<le> 90) \<or> (97 \<le> c \<and> c \<le> 122) \<or> c = 95
      else unicode_isalnum L c)"

definition sanitize :: "lib \<Rightarrow> str \<Rightarrow> str" where
  "sanitize L s = filter (\<lambda>c. is_word L c \<or> c = 46) s"

definition re_sub_nonword :: "lib \<Rightarrow> json \<Rightarrow> pye + str" where
  "re_sub_nonword L x = (case x of JStr s \<Rightarrow> Inr (sanitize L s) | _ \<Rightarrow> Inl TypeError)"

text \<open>\<^verbatim>\<open>os.path.join(a, b)\<close> of \<^verbatim>\<open>posixpath\<close>; 47 is the slash.\<close>

definition os_path_join :: "str \<Rightarrow> str \<Rightarrow> str" where
  "os_path_join a b =
     (if b \<noteq> [] \<and> hd b = 47 then b
      else if a = [] \<or> last a = 47 then a @ b
      else a @ [47] @ b)"

section \<open>The handler of one connection\<close>

datatype state = STATE_CONNECT | STATE_OPEN | STATE_DATA | STATE_CLOSE

text \<open>
  The file system the handler writes to. A path is resolved to its components from the
  root; \<open>dirs\<close> are the directories that exist, \<open>files\<close> the regular files with their
  content, \<open>readonly\<close> the places where the system refuses to create or open, \<open>full\<close>
  says that a write fails.
\<close>

record fsys =
  cwd :: "str list"
  dirs :: "str list set"
  files :: "str list \<rightharpoonup> bytes"
  readonly :: "str list set"
  full :: bool

text \<open>
  A path is split at the slashes and walked from the root (an absolute path) or from the
  working directory: an empty component and \<^verbatim>\<open>.\<close> stay, \<^verbatim>\<open>..\<close> goes to the parent. There
  are no symbolic links.
\<close>

fun split_on :: "nat \<Rightarrow> str \<Rightarrow> str list" where
  "split_on d [] = [[]]"
| "split_on d (c # cs) =
     (if c = d then [] # split_on d cs
      else (case split_on d cs of x # xs \<Rightarrow> (c # x) # xs | [] \<Rightarrow> [[c]]))"

fun walk :: "str list \<Rightarrow> str list \<Rightarrow> str list" where
  "walk cur [] = cur"
| "walk cur (c # cs) =
     walk (if c = [] \<or> c = str_of ''.'' then cur
           else if c = str_of ''..'' then butlast cur
           else cur @ [c]) cs"

definition resolve :: "fsys \<Rightarrow> str \<Rightarrow> str list" where
  "resolve F p = walk (if p \<noteq> [] \<and> hd p = 47 then [] else cwd F) (split_on 47 p)"

text \<open>
  \<^verbatim>\<open>os.path.exists\<close>, \<^verbatim>\<open>os.mkdir\<close>, \<^verbatim>\<open>open(path, "wb")\<close> and \<^verbatim>\<open>write\<close> followed by
  \<^verbatim>\<open>flush\<close>. Creating needs the parent directory; opening for writing creates the file or
  empties it; \<open>None\<close> stands for the \<^verbatim>\<open>OSError\<close> of the call.
\<close>

definition os_path_exists :: "fsys \<Rightarrow> str \<Rightarrow> bool" where
  "os_path_exists F p = (resolve F p \<in> dirs F \<or> files F (resolve F p) \<noteq> None)"

definition os_mkdir :: "fsys \<Rightarrow> str \<Rightarrow> fsys option" where
  "os_mkdir F p =
     (let q = resolve F p in
      if q \<in> dirs F \<or> files F q \<noteq> None \<or> q \<in> readonly F \<or> butlast q \<notin> dirs F then None
      else Some (F\<lparr>dirs := insert q (dirs F)\<rparr>))"

definition open_wb :: "fsys \<Rightarrow> str \<Rightarrow> (str list \<times> fsys) option" where
  "open_wb F p =
     (let q = resolve F p in
      if q \<in> dirs F \<or> q \<in> readonly F \<or> butlast q \<notin> dirs F then None
      else Some (q, F\<lparr>files := (files F)(q \<mapsto> [])\<rparr>))"

definition file_write :: "fsys \<Rightarrow> str list \<Rightarrow> bytes \<Rightarrow> fsys option" where
  "file_write F q data =
     (if full F then None
      else (case files F q of
              None \<Rightarrow> Some F
            | Some old \<Rightarrow> Some (F\<lparr>files := (files F)(q \<mapsto> old @ data)\<rparr>)))"

text \<open>
  The fields of \<^verbatim>\<open>ClientHandler\<close> that the methods read or write, with the transport
  (what was written to it, and whether it was closed) and the file system. An open file
  is the resolved path it was opened at (field \<open>file_handle\<close>, for \<^verbatim>\<open>self.file\<close>).
  The fields that no method reads after \<^verbatim>\<open>__init__\<close> (\<^verbatim>\<open>signal\<close>, \<^verbatim>\<open>peername\<close>, the lists
  \<^verbatim>\<open>ciphers\<close>, \<^verbatim>\<open>modes\<close> and \<^verbatim>\<open>sinteses\<close>, \<^verbatim>\<open>public_key\<close>) are left out.
\<close>

record handler =
  state :: state
  file_handle :: "str list option"
  file_name :: "str option"
  file_path :: "str option"
  storage_dir :: str
  buffer :: str
  key :: "bytes option"
  parameters :: "(int \<times> int) option"
  private_key :: "privkey option"
  cipher :: "str option"
  mode :: "str option"
  hash_function :: "str option"
  transport_out :: "json list"
  transport_closed :: bool
  fs :: fsys

subsection \<open>Negotiation\<close>

text \<open>
  One block of \<^verbatim>\<open>choose_algo\<close>: \<^verbatim>\<open>if a in xs: ... = a  elif b in xs: ... = b  else: return False\<close>.
\<close>

definition choose_from :: "str \<Rightarrow> str \<Rightarrow> json \<Rightarrow> pye + str option" where
  "choose_from a b xs =
     (case py_in a xs of
        Inl e \<Rightarrow> Inl e
      | Inr True \<Rightarrow> Inr (Some a)
      | Inr False \<Rightarrow>
          (case py_in b xs of
             Inl e \<Rightarrow> Inl e
           | Inr True \<Rightarrow> Inr (Some b)
           | Inr False \<Rightarrow> Inr None))"

definition choose_algo :: "json \<Rightarrow> json \<Rightarrow> json \<Rightarrow> handler \<Rightarrow> bool res \<times> handler" where
  "choose_algo ciphers modes hash_functions h =
     (case choose_from (str_of ''ChaCha20'') (str_of ''AES'') ciphers of
        Inl e \<Rightarrow> (Raise e, h)
      | Inr None \<Rightarrow> (Ret False, h)
      | Inr (Some c) \<Rightarrow>
          (let h1 = h\<lparr>cipher := Some c\<rparr> in
           case choose_from (str_of ''GCM'') (str_of ''CBC'') modes of
             Inl e \<Rightarrow> (Raise e, h1)
           | Inr None \<Rightarrow> (Ret False, h1)
           | Inr (Some m) \<Rightarrow>
               (let h2 = h1\<lparr>mode := Some m\<rparr> in
                case choose_from (str_of ''SHA-512'') (str_of ''SHA-256'') hash_functions of
                  Inl e \<Rightarrow> (Raise e, h2)
                | Inr None \<Rightarrow> (Ret False, h2)
                | Inr (Some d) \<Rightarrow> (Ret True, h2\<lparr>hash_function := Some d\<rparr>))))"

subsection \<open>Construction and sending\<close>

text \<open>
  \<^verbatim>\<open>__init__\<close>, for a storage directory (the global \<^verbatim>\<open>storage_dir\<close> when the handler is
  made), a fresh transport and a file system.
\<close>

definition ClientHandler :: "str \<Rightarrow> fsys \<Rightarrow> handler" where
  "ClientHandler sd F =
     \<lparr>state = STATE_CONNECT, file_handle = None, file_name = None, file_path = None,
      storage_dir = sd, buffer = [], key = None, parameters = None, private_key = None,
      cipher = None, mode = None, hash_function = None,
      transport_out = [], transport_closed = False, fs = F\<rparr>"

text \<open>
  \<^verbatim>\<open>_send\<close> writes \<^verbatim>\<open>json.dumps(message) + '\r\n'\<close> to the transport; the model records
  the message.
\<close>

definition send :: "json \<Rightarrow> handler \<Rightarrow> handler" where
  "send message h = h\<lparr>transport_out := transport_out h @ [message]\<rparr>"

definition msg_ERROR :: json where
  "msg_ERROR =
     JObj [(str_of ''type'', JStr (str_of ''ERROR'')),
           (str_of ''message'', JStr (str_of ''See server''))]"

definition msg_OK :: json where
  "msg_OK = JObj [(str_of ''type'', JStr (str_of ''OK''))]"

definition msg_DH_INIT :: "int \<Rightarrow> int \<Rightarrow> json" where
  "msg_DH_INIT p g =
     JObj [(str_of ''type'', JStr (str_of ''DH_INIT'')),
           (str_of ''data'', JObj [(str_of ''p'', JInt p), (str_of ''g'', JInt g)])]"

definition msg_DH_KEY_EXCHANGE :: "str \<Rightarrow> json" where
  "msg_DH_KEY_EXCHANGE pub_key =
     JObj [(str_of ''type'', JStr (str_of ''DH_KEY_EXCHANGE'')),
           (str_of ''data'', JObj [(str_of ''pub_key'', JStr pub_key)])]"

text \<open>
  \<^verbatim>\<open>connection_made\<close>, with \<^verbatim>\<open>diffie_hellman_init\<close> and \<^verbatim>\<open>diffie_hellman_gen_Y\<close>. What
  the library generates is given: the modulus \<open>p\<close> and generator \<open>g\<close>, the private key
  \<open>sk\<close> and the text \<open>pub_key\<close> of its public key.
\<close>

definition connection_made :: "int \<Rightarrow> int \<Rightarrow> privkey \<Rightarrow> str \<Rightarrow> handler \<Rightarrow> handler" where
  "connection_made p g sk pub_key h =
     (let h1 = h\<lparr>state := STATE_CONNECT\<rparr>;
          h2 = (if parameters h1 = None
                then send (msg_DH_INIT p g) (h1\<lparr>parameters := Some (p, g)\<rparr>) else h1)
      in if private_key h2 = None
         then send (msg_DH_KEY_EXCHANGE pub_key) (h2\<lparr>private_key := Some sk\<rparr>) else h2)"

definition opt_json :: "str option \<Rightarrow> json" where
  "opt_json x = (case x of None \<Rightarrow> JNull | Some s \<Rightarrow> JStr s)"

definition msg_CIPHER_CHOSEN :: "str option \<Rightarrow> str option \<Rightarrow> str option \<Rightarrow> json" where
  "msg_CIPHER_CHOSEN c m d =
     JObj [(str_of ''type'', JStr (str_of ''CIPHER_CHOSEN'')),
           (str_of ''cipher'', opt_json c),
           (str_of ''mode'', opt_json m),
           (str_of ''sintese'', opt_json d)]"

subsection \<open>The message handlers\<close>

definition process_open :: "lib \<Rightarrow> (str \<times> json) list \<Rightarrow> handler \<Rightarrow> bool res \<times> handler" where
  "process_open L message h =
     (if state h \<noteq> STATE_CONNECT then (Ret False, h)
      else if \<not> dict_has message (str_of ''file_name'') then (Ret False, h)
      else
        (case re_sub_nonword L (dict_get message (str_of ''file_name'')) of
           Inl e \<Rightarrow> (Raise e, h)
         | Inr name \<Rightarrow>
             (let path = os_path_join (storage_dir h) name in
              case (if \<not> os_path_exists (fs h) (str_of ''files'')
                    then os_mkdir (fs h) (str_of ''files'') else Some (fs h)) of
                None \<Rightarrow> (Ret False, h)
              | Some F1 \<Rightarrow>
                  (case open_wb F1 path of
                     None \<Rightarrow> (Ret False, h\<lparr>fs := F1\<rparr>)
                   | Some (q, F2) \<Rightarrow>
                       (Ret True,
                        (send msg_OK (h\<lparr>fs := F2, file_handle := Some q\<rparr>))
                          \<lparr>file_name := Some name, file_path := Some path,
                           state := STATE_OPEN\<rparr>)))))"

definition process_data :: "lib \<Rightarrow> (str \<times> json) list \<Rightarrow> handler \<Rightarrow> bool res \<times> handler" where
  "process_data L message h =
     (if state h \<noteq> STATE_OPEN \<and> state h \<noteq> STATE_DATA then (Ret False, h)
      else
        (let h1 = (if state h = STATE_OPEN then h\<lparr>state := STATE_DATA\<rparr> else h) in
         case dict_get message (str_of ''data'') of
           JNull \<Rightarrow> (Ret False, h1)
         | JStr d \<Rightarrow>
             (case b64decode L d of
                None \<Rightarrow> (Ret False, h1)
              | Some bdata \<Rightarrow>
                  (case file_handle h1 of
                     None \<Rightarrow> (Ret False, h1)
                   | Some q \<Rightarrow>
                       (case file_write (fs h1) q bdata of
                          None \<Rightarrow> (Ret False, h1)
                        | Some F \<Rightarrow> (Ret True, h1\<lparr>fs := F\<rparr>))))
         | _ \<Rightarrow> (Ret False, h1)))"

definition process_close :: "(str \<times> json) list \<Rightarrow> handler \<Rightarrow> bool res \<times> handler" where
  "process_close message h =
     (Ret True, h\<lparr>transport_closed := True, file_handle := None, state := STATE_CLOSE\<rparr>)"

text \<open>
  \<^verbatim>\<open>get_key\<close> has no \<^verbatim>\<open>try\<close>: what \<^verbatim>\<open>encode\<close> (on a value that is not a str), the loading
  of the key or the exchange raise leaves the method.
\<close>

definition get_key :: "lib \<Rightarrow> json \<Rightarrow> handler \<Rightarrow> bool res \<times> handler" where
  "get_key L client_pub_key_b h =
     (case client_pub_key_b of
        JStr pem \<Rightarrow>
          (case load_pem_public_key L pem of
             Inl e \<Rightarrow> (Raise e, h)
           | Inr client_pub_key \<Rightarrow>
               (case private_key h of
                  None \<Rightarrow> (Raise AttributeError, h)
                | Some sk \<Rightarrow>
                    (case exchange L sk client_pub_key of
                       Inl e \<Rightarrow> (Raise e, h)
                     | Inr shared_key \<Rightarrow>
                         (Ret True, h\<lparr>key := Some (hkdf_derive L shared_key)\<rparr>))))
      | _ \<Rightarrow> (Raise AttributeError, h))"

definition process_negotiate :: "(str \<times> json) list \<Rightarrow> handler \<Rightarrow> bool res \<times> handler" where
  "process_negotiate message h =
     (if state h \<noteq> STATE_CONNECT then (Ret False, h)
      else if \<not> (dict_has message (str_of ''ciphers'') \<and> dict_has message (str_of ''modes'')
                 \<and> dict_has message (str_of ''sinteses'')) then (Ret False, h)
      else
        (case choose_algo (dict_get message (str_of ''ciphers''))
                (dict_get message (str_of ''modes''))
                (dict_get message (str_of ''sinteses'')) h of
           (Raise e, h1) \<Rightarrow> (Raise e, h1)
         | (Ret ret, h1) \<Rightarrow>
             (Ret ret, send (msg_CIPHER_CHOSEN (cipher h1) (mode h1) (hash_function h1)) h1)))"

subsection \<open>The dispatcher\<close>

text \<open>
  \<^verbatim>\<open>message.get('type', "").upper()\<close>: \<^verbatim>\<open>get\<close> exists on a dict only and \<^verbatim>\<open>upper\<close> on a
  str only; anything else raises \<^verbatim>\<open>AttributeError\<close>.
\<close>

definition message_type :: "lib \<Rightarrow> json \<Rightarrow> pye + str" where
  "message_type L message =
     (case message of
        JObj d \<Rightarrow>
          (case dict_get_default d (str_of ''type'') (JStr []) of
             JStr t \<Rightarrow> Inr (py_upper L t)
           | _ \<Rightarrow> Inl AttributeError)
      | _ \<Rightarrow> Inl AttributeError)"

text \<open>
  The chain of \<^verbatim>\<open>if mtype == ...\<close>. The last branch formats \<^verbatim>\<open>message['type']\<close> into its
  warning before it sets \<^verbatim>\<open>ret = False\<close>.
\<close>

definition dispatch :: "lib \<Rightarrow> str \<Rightarrow> (str \<times> json) list \<Rightarrow> handler \<Rightarrow> bool res \<times> handler" where
  "dispatch L mtype message h =
     (if mtype = str_of ''DH_KEY_EXCHANGE'' then
        (case dict_get message (str_of ''data'') of
           JObj d \<Rightarrow> get_key L (dict_get d (str_of ''pub_key'')) h
         | _ \<Rightarrow> (Raise AttributeError, h))
      else if mtype = str_of ''OPEN'' then process_open L message h
      else if mtype = str_of ''DATA'' then process_data L message h
      else if mtype = str_of ''CLOSE'' then process_close message h
      else if mtype = str_of ''NEGOTIATE'' then process_negotiate message h
      else (case dict_index message (str_of ''type'') of
              Inl e \<Rightarrow> (Raise e, h)
            | Inr t \<Rightarrow> (Ret False, h)))"

text \<open>What \<^verbatim>\<open>on_frame\<close> does when a handler returned \<^verbatim>\<open>False\<close>.\<close>

definition fail_closed :: "handler \<Rightarrow> handler" where
  "fail_closed h =
     (send msg_ERROR h)\<lparr>file_handle := None, state := STATE_CLOSE, transport_closed := True\<rparr>"

definition on_frame :: "lib \<Rightarrow> str \<Rightarrow> handler \<Rightarrow> unit res \<times> handler" where
  "on_frame L frame h =
     (case json_loads L frame of
        None \<Rightarrow> (Ret (), h\<lparr>transport_closed := True\<rparr>)
      | Some message \<Rightarrow>
          (case message_type L message of
             Inl e \<Rightarrow> (Raise e, h)
           | Inr mtype \<Rightarrow>
               (case dispatch L mtype (case message of JObj d \<Rightarrow> d | _ \<Rightarrow> []) h of
                  (Raise e, h1) \<Rightarrow> (Raise e, h1)
                | (Ret ret, h1) \<Rightarrow>
                    if \<not> ret then (Ret (), fail_closed h1) else (Ret (), h1))))"

subsection \<open>Framing\<close>

text \<open>No method called by \<^verbatim>\<open>on_frame\<close> touches the buffer; the loop below ends for that reason.\<close>

lemma send_buffer: "buffer (send m h) = buffer h"
  by (simp add: send_def)

lemma choose_algo_buffer: "buffer (snd (choose_algo a b c h)) = buffer h"
  by (simp add: choose_algo_def Let_def split: sum.splits option.splits)

lemma process_open_buffer: "buffer (snd (process_open L m h)) = buffer h"
  by (simp add: process_open_def Let_def send_def split: sum.splits option.splits prod.splits)

lemma process_data_buffer: "buffer (snd (process_data L m h)) = buffer h"
  by (simp add: process_data_def Let_def split: json.splits option.splits)

lemma get_key_buffer: "buffer (snd (get_key L k h)) = buffer h"
  by (simp add: get_key_def split: json.splits sum.splits option.splits)

lemma process_negotiate_buffer: "buffer (snd (process_negotiate m h)) = buffer h"
  using choose_algo_buffer [of "dict_get m (str_of ''ciphers'')"
      "dict_get m (str_of ''modes'')" "dict_get m (str_of ''sinteses'')" h]
  by (auto simp: process_negotiate_def send_def split: prod.splits res.splits)

lemma dispatch_buffer: "buffer (snd (dispatch L t m h)) = buffer h"
  by (simp add: dispatch_def process_open_buffer process_data_buffer get_key_buffer
        process_negotiate_buffer process_close_def split: json.splits sum.splits)

lemma on_frame_buffer: "buffer (snd (on_frame L frame h)) = buffer h"
proof (cases "json_loads L frame")
  case None
  then show ?thesis by (simp add: on_frame_def)
next
  case (Some message)
  show ?thesis
  proof (cases "message_type L message")
    case (Inl e)
    with Some show ?thesis by (simp add: on_frame_def)
  next
    case (Inr mtype)
    have "buffer (snd (dispatch L mtype (case message of JObj d \<Rightarrow> d | _ \<Rightarrow> []) h)) = buffer h"
      by (rule dispatch_buffer)
    with Some Inr show ?thesis
      by (auto simp: on_frame_def fail_closed_def send_def split: prod.splits res.splits)
  qed
qed

lemma py_find_bound: "0 \<le> py_find s sub \<Longrightarrow> nat (py_find s sub) + length sub \<le> length s"
proof (induction s)
  case Nil
  then show ?case by (simp split: if_splits)
next
  case (Cons c cs)
  show ?case
  proof (cases "prefix sub (c # cs)")
    case True
    then show ?thesis using prefix_length_le [of sub "c # cs"] by simp
  next
    case False
    with Cons show ?thesis by (auto simp: Let_def split: if_splits)
  qed
qed

definition CRLF :: str where
  "CRLF = [13, 10]"

text \<open>
  The loop of \<^verbatim>\<open>data_received\<close>: while the buffer holds a separator, the text up to and
  with it is stripped and handed to \<^verbatim>\<open>on_frame\<close>, and leaves the buffer. An exception of
  \<^verbatim>\<open>on_frame\<close> leaves the loop with the frame already taken out.
\<close>

function frame_loop :: "lib \<Rightarrow> handler \<Rightarrow> unit res \<times> handler" where
  "frame_loop L h =
     (let idx = py_find (buffer h) CRLF in
      if idx \<ge> 0 then
        (let frame = py_strip (take (nat (idx + 2)) (buffer h));
             h1 = h\<lparr>buffer := drop (nat (idx + 2)) (buffer h)\<rparr>
         in case on_frame L frame h1 of
              (Raise e, h2) \<Rightarrow> (Raise e, h2)
            | (Ret u, h2) \<Rightarrow> frame_loop L h2)
      else (Ret (), h))"
  by pat_completeness auto
termination
proof (relation "measure (\<lambda>(L, h). length (buffer h))")
  show "wf (measure (\<lambda>(L, h). length (buffer h)))" by simp
next
  fix L h idx frame h1 x y u
  assume a: "idx = py_find (buffer h) CRLF" "0 \<le> idx"
    "h1 = h\<lparr>buffer := drop (nat (idx + 2)) (buffer h)\<rparr>"
    "(x, y) = on_frame L frame h1"
  have "buffer y = buffer h1"
    using on_frame_buffer [of L frame h1] a(4) by (metis snd_conv)
  moreover have "nat idx + 2 \<le> length (buffer h)"
    using py_find_bound [of "buffer h" CRLF] a(1,2) by (simp add: CRLF_def)
  ultimately show "((L, y), (L, h)) \<in> measure (\<lambda>(L, h). length (buffer h))"
    using a(2,3) by (simp add: nat_add_distrib)
qed

declare frame_loop.simps [simp del]

text \<open>
  \<^verbatim>\<open>data_received\<close>: a chunk that does not decode is logged and dropped, then the loop
  runs; a buffer left longer than \<open>4096 * 1024 * 1024\<close> is emptied and the transport closed.
\<close>

definition data_received :: "lib \<Rightarrow> bytes \<Rightarrow> handler \<Rightarrow> unit res \<times> handler" where
  "data_received L data h =
     (let h1 = (case utf8_decode data of
                  Some text \<Rightarrow> h\<lparr>buffer := buffer h @ text\<rparr>
                | None \<Rightarrow> h)
      in case frame_loop L h1 of
           (Raise e, h2) \<Rightarrow> (Raise e, h2)
         | (Ret u, h2) \<Rightarrow>
             if length (buffer h2) > 4096 * 1024 * 1024
             then (Ret (), h2\<lparr>buffer := [], transport_closed := True\<rparr>)
             else (Ret (), h2))"

text \<open>
  The event loop calls \<^verbatim>\<open>data_received\<close> once for every chunk it delivers, in order; an
  exception that leaves \<^verbatim>\<open>data_received\<close> ends the deliveries.
\<close>

fun deliver :: "lib \<Rightarrow> bytes list \<Rightarrow> handler \<Rightarrow> unit res \<times> handler" where
  "deliver L [] h = (Ret (), h)"
| "deliver L (data # rest) h =
     (case data_received L data h of
        (Raise e, h1) \<Rightarrow> (Raise e, h1)
      | (Ret u, h1) \<Rightarrow> deliver L rest h1)"

declare deliver.simps [simp del]

section \<open>Notions of the specification\<close>

text \<open>
  The choice the specification describes for one category: the first of two candidates
  that the offered list contains.
\<close>

definition by_priority :: "str \<Rightarrow> str \<Rightarrow> json list \<Rightarrow> str option" where
  "by_priority a b xs =
     (if JStr a \<in> set xs then Some a else if JStr b \<in> set xs then Some b else None)"

text \<open>
  The uniform handling of a fatal outcome, between the handler before a frame and after
  it: the error frame was written, no file is open, the state is terminal and the
  transport is closed.
\<close>

definition fatal :: "handler \<Rightarrow> handler \<Rightarrow> bool" where
  "fatal h h' =
     (transport_out h' = transport_out h @ [msg_ERROR] \<and> file_handle h' = None
      \<and> state h' = STATE_CLOSE \<and> transport_closed h')"

text \<open>
  A frame that \<^verbatim>\<open>json.loads\<close> reads as the dict \<open>d\<close>, whose upper-cased type is \<open>T\<close>.
\<close>

definition frame_message :: "lib \<Rightarrow> str \<Rightarrow> str \<Rightarrow> (str \<times> json) list \<Rightarrow> bool" where
  "frame_message L frame T d =
     (json_loads L frame = Some (JObj d) \<and> message_type L (JObj d) = Inr T)"



text \<open>Frames handed to \<^verbatim>\<open>on_frame\<close> one after the other, up to the first that raises.\<close>

fun run_frames :: "lib \<Rightarrow> str list \<Rightarrow> handler \<Rightarrow> unit res \<times> handler" where
  "run_frames L [] h = (Ret (), h)"
| "run_frames L (frame # frames) h =
     (case on_frame L frame h of
        (Raise e, h1) \<Rightarrow> (Raise e, h1)
      | (Ret u, h1) \<Rightarrow> run_frames L frames h1)"

text \<open>
  The frames of a legal session: an OPEN message with a file name that is a str, a DATA
  message whose data is a str that decodes to a payload, and a CLOSE message.
\<close>

definition is_open_frame :: "lib \<Rightarrow> str \<Rightarrow> str \<Rightarrow> bool" where
  "is_open_frame L frame name =
     (case json_loads L frame of
        Some (JObj d) \<Rightarrow>
          message_type L (JObj d) = Inr (str_of ''OPEN'')
          \<and> dict_get d (str_of ''file_name'') = JStr name
      | _ \<Rightarrow> False)"

definition is_data_frame :: "lib \<Rightarrow> str \<Rightarrow> bytes \<Rightarrow> bool" where
  "is_data_frame L frame payload =
     (case json_loads L frame of
        Some (JObj d) \<Rightarrow>
          message_type L (JObj d) = Inr (str_of ''DATA'')
          \<and> (case dict_get d (str_of ''data'') of
                JStr p \<Rightarrow> b64decode L p = Some payload
              | _ \<Rightarrow> False)
      | _ \<Rightarrow> False)"

definition is_close_frame :: "lib \<Rightarrow> str \<Rightarrow> bool" where
  "is_close_frame L frame =
     (case json_loads L frame of
        Some (JObj d) \<Rightarrow> message_type L (JObj d) = Inr (str_of ''CLOSE'')
      | _ \<Rightarrow> False)"

text \<open>
  What a negotiation chooses up to the first category with no supported candidate, and a
  field that keeps its old value unless a new one was chosen.
\<close>

definition partial_choice ::
  "json list \<Rightarrow> json list \<Rightarrow> json list \<Rightarrow> str option \<times> str option \<times> str option" where
  "partial_choice cs ms hs =
     (case by_priority (str_of ''ChaCha20'') (str_of ''AES'') cs of
        None \<Rightarrow> (None, None, None)
      | Some c \<Rightarrow>
          (case by_priority (str_of ''GCM'') (str_of ''CBC'') ms of
             None \<Rightarrow> (Some c, None, None)
           | Some m \<Rightarrow>
               (Some c, Some m, by_priority (str_of ''SHA-512'') (str_of ''SHA-256'') hs)))"

definition chosen_or :: "str option \<Rightarrow> str option \<Rightarrow> str option" where
  "chosen_or new old = (case new of None \<Rightarrow> old | Some x \<Rightarrow> Some x)"

text \<open>
  An open file exactly in the states OPEN and DATA.
\<close>

definition handle_inv :: "handler \<Rightarrow> bool" where
  "handle_inv h = ((file_handle h \<noteq> None) = (state h = STATE_OPEN \<or> state h = STATE_DATA))"

section \<open>A sample connection\<close>

definition open_frame :: str where
  \<open>open_frame = str_of ''{"type":"OPEN","file_name":"a.txt"}''\<close>

definition open_message :: "(str \<times> json) list" where
  "open_message =
     [(str_of ''type'', JStr (str_of ''OPEN'')), (str_of ''file_name'', JStr (str_of ''a.txt''))]"

definition data_frame_1 :: str where
  \<open>data_frame_1 = str_of ''{"type":"DATA","data":"aGVsbG8="}''\<close>

definition data_message_1 :: "(str \<times> json) list" where
  "data_message_1 =
     [(str_of ''type'', JStr (str_of ''DATA'')), (str_of ''data'', JStr (str_of ''aGVsbG8=''))]"

definition data_frame_2 :: str where
  \<open>data_frame_2 = str_of ''{"type":"DATA","data":"d29ybGQ="}''\<close>

definition data_message_2 :: "(str \<times> json) list" where
  "data_message_2 =
     [(str_of ''type'', JStr (str_of ''DATA'')), (str_of ''data'', JStr (str_of ''d29ybGQ=''))]"

definition close_frame :: str where
  \<open>close_frame = str_of ''{"type":"CLOSE"}''\<close>

definition close_message :: "(str \<times> json) list" where
  "close_message = [(str_of ''type'', JStr (str_of ''CLOSE''))]"

definition negotiate_frame :: str where
  \<open>negotiate_frame = str_of
     ''{"type":"NEGOTIATE","ciphers":["AES","ChaCha20"],"modes":["CBC","GCM"],"sinteses":["SHA-256","SHA-512"]}''\<close>

definition negotiate_message :: "(str \<times> json) list" where
  "negotiate_message =
     [(str_of ''type'', JStr (str_of ''NEGOTIATE'')),
      (str_of ''ciphers'', JArr [JStr (str_of ''AES''), JStr (str_of ''ChaCha20'')]),
      (str_of ''modes'', JArr [JStr (str_of ''CBC''), JStr (str_of ''GCM'')]),
      (str_of ''sinteses'', JArr [JStr (str_of ''SHA-256''), JStr (str_of ''SHA-512'')])]"

definition negotiate_frame_2 :: str where
  \<open>negotiate_frame_2 = str_of
     ''{"type":"NEGOTIATE","ciphers":["AES"],"modes":["ECB"],"sinteses":[]}''\<close>

definition negotiate_message_2 :: "(str \<times> json) list" where
  "negotiate_message_2 =
     [(str_of ''type'', JStr (str_of ''NEGOTIATE'')),
      (str_of ''ciphers'', JArr [JStr (str_of ''AES'')]),
      (str_of ''modes'', JArr [JStr (str_of ''ECB'')]),
      (str_of ''sinteses'', JArr [])]"

definition dh_frame :: str where
  \<open>dh_frame = str_of ''{"type":"DH_KEY_EXCHANGE","data":{"pub_key":"PEM 19"}}''\<close>

definition dh_message :: "(str \<times> json) list" where
  "dh_message =
     [(str_of ''type'', JStr (str_of ''DH_KEY_EXCHANGE'')),
      (str_of ''data'', JObj [(str_of ''pub_key'', JStr (str_of ''PEM 19''))])]"

definition dh_bad_frame :: str where
  \<open>dh_bad_frame = str_of ''{"type":"DH_KEY_EXCHANGE","data":{"pub_key":"garbage"}}''\<close>

definition dh_bad_message :: "(str \<times> json) list" where
  "dh_bad_message =
     [(str_of ''type'', JStr (str_of ''DH_KEY_EXCHANGE'')),
      (str_of ''data'', JObj [(str_of ''pub_key'', JStr (str_of ''garbage''))])]"

definition ping_frame :: str where
  \<open>ping_frame = str_of ''{"type":"PING"}''\<close>

definition ping_message :: "(str \<times> json) list" where
  "ping_message = [(str_of ''type'', JStr (str_of ''PING''))]"

definition bad_frame :: str where
  \<open>bad_frame = str_of ''{not json''\<close>

text \<open>
  Frames that are JSON but carry no usable type: an object with no type, an object whose
  type is a number, and a list.
\<close>

definition empty_object_frame :: str where
  "empty_object_frame = str_of ''{}''"

definition number_type_frame :: str where
  \<open>number_type_frame = str_of ''{"type":5}''\<close>

definition list_frame :: str where
  "list_frame = str_of ''[1]''"

definition dots_frame :: str where
  \<open>dots_frame = str_of ''{"type":"OPEN","file_name":".."}''\<close>

definition dots_message :: "(str \<times> json) list" where
  "dots_message =
     [(str_of ''type'', JStr (str_of ''OPEN'')), (str_of ''file_name'', JStr (str_of ''..''))]"

text \<open>An OPEN message whose file name starts with the code point 233 (e with acute).\<close>

definition accent_name :: str where
  "accent_name = [233] @ str_of ''.txt''"

definition accent_frame :: str where
  \<open>accent_frame = str_of ''{"type":"OPEN","file_name":"'' @ accent_name @ str_of ''"}''\<close>

definition accent_message :: "(str \<times> json) list" where
  "accent_message =
     [(str_of ''type'', JStr (str_of ''OPEN'')), (str_of ''file_name'', JStr accent_name)]"

text \<open>
  The library on the inputs of the examples: \<open>json_loads\<close> and \<open>b64decode\<close> are tabulated
  on the frames and payloads above and refuse anything else, the Unicode database is given
  at the code point 233, and the key functions are stand-ins (one key that loads, a small
  group for the exchange).
\<close>

definition sample_lib :: lib where
  "sample_lib =
     \<lparr>json_loads = map_of
        [(open_frame, JObj open_message), (data_frame_1, JObj data_message_1),
         (data_frame_2, JObj data_message_2), (close_frame, JObj close_message),
         (negotiate_frame, JObj negotiate_message),
         (negotiate_frame_2, JObj negotiate_message_2),
         (dh_frame, JObj dh_message), (dh_bad_frame, JObj dh_bad_message),
         (ping_frame, JObj ping_message), (dots_frame, JObj dots_message),
         (accent_frame, JObj accent_message), (empty_object_frame, JObj []),
         (number_type_frame, JObj [(str_of ''type'', JInt 5)]),
         (list_frame, JArr [JInt 1])],
      b64decode = map_of
        [(str_of ''aGVsbG8='', map of_char ''hello''), (str_of ''d29ybGQ='', map of_char ''world'')],
      unicode_isalnum = (\<lambda>c. c = 0xE9),
      unicode_upper = (\<lambda>c. if c = 0xE9 then [0xC9] else [c]),
      load_pem_public_key = (\<lambda>s. if s = str_of ''PEM 19'' then Inr 19 else Inl ValueError),
      exchange = (\<lambda>sk pk. Inr [of_nat (pk ^ sk mod 23)]),
      hkdf_derive = (\<lambda>shared. shared)\<rparr>"

definition sample_fs :: fsys where
  "sample_fs =
     \<lparr>cwd = [str_of ''srv''],
      dirs = {[], [str_of ''srv''], [str_of ''srv'', str_of ''files'']},
      files = Map.empty, readonly = {}, full = False\<rparr>"

definition sample_handler :: handler where
  "sample_handler =
     connection_made 23 5 6 (str_of ''PEM 8'') (ClientHandler (str_of ''/srv/files'') sample_fs)"

text \<open>The sample handler after its OPEN message.\<close>

definition opened_handler :: handler where
  "opened_handler =
     sample_handler
       \<lparr>state := STATE_OPEN,
        file_handle := Some [str_of ''srv'', str_of ''files'', str_of ''a.txt''],
        file_name := Some (str_of ''a.txt''),
        file_path := Some (str_of ''/srv/files/a.txt''),
        transport_out := transport_out sample_handler @ [msg_OK],
        fs := sample_fs\<lparr>files := [[str_of ''srv'', str_of ''files'', str_of ''a.txt''] \<mapsto> []]\<rparr>\<rparr>"

text \<open>ASCII text as octets.\<close>

definition bytes_of :: "string \<Rightarrow> bytes" where
  "bytes_of cs = map of_char cs"





text \<open>
  A handler configured with another storage directory, on a file system where neither
  that directory nor \<^verbatim>\<open>files\<close> exists yet.
\<close>

definition bare_fs :: fsys where
  "bare_fs =
     \<lparr>cwd = [str_of ''srv''], dirs = {[], [str_of ''srv'']},
      files = Map.empty, readonly = {}, full = False\<rparr>"

definition other_root_handler :: handler where
  "other_root_handler =
     connection_made 23 5 6 (str_of ''PEM 8'') (ClientHandler (str_of ''/data/up'') bare_fs)"

text \<open>The sample handler after its first NEGOTIATE message.\<close>

definition negotiated_handler :: handler where
  "negotiated_handler =
     sample_handler
       \<lparr>cipher := Some (str_of ''ChaCha20''), mode := Some (str_of ''GCM''),
        hash_function := Some (str_of ''SHA-512''),
        transport_out :=
          transport_out sample_handler
          @ [msg_CIPHER_CHOSEN (Some (str_of ''ChaCha20'')) (Some (str_of ''GCM''))
               (Some (str_of ''SHA-512''))]\<rparr>"

section \<open>Lemmas on the dispatcher\<close>

lemma choose_from_JArr: "choose_from a b (JArr xs) = Inr (by_priority a b xs)"
  by (simp add: choose_from_def by_priority_def split: bool.splits)

lemma on_frame_message:
  assumes "frame_message L frame T d"
  shows "on_frame L frame h =
     (case dispatch L T d h of
        (Raise e, h1) \<Rightarrow> (Raise e, h1)
      | (Ret ret, h1) \<Rightarrow> if ret then (Ret (), h1) else (Ret (), fail_closed h1))"
  using assms by (auto simp: frame_message_def on_frame_def split: prod.splits res.splits)

lemma fatal_fail_closed: "fatal h (fail_closed h)"
  by (simp add: fatal_def fail_closed_def send_def)

lemma fs_fail_closed: "fs (fail_closed h) = fs h"
  by (simp add: fail_closed_def send_def)

lemma type_names_distinct:
  "str_of ''DATA'' \<noteq> str_of ''DH_KEY_EXCHANGE''" "str_of ''DATA'' \<noteq> str_of ''OPEN''"
  "str_of ''OPEN'' \<noteq> str_of ''DH_KEY_EXCHANGE''"
  "str_of ''CLOSE'' \<noteq> str_of ''DH_KEY_EXCHANGE''" "str_of ''CLOSE'' \<noteq> str_of ''OPEN''"
  "str_of ''CLOSE'' \<noteq> str_of ''DATA''"
  "str_of ''NEGOTIATE'' \<noteq> str_of ''DH_KEY_EXCHANGE''" "str_of ''NEGOTIATE'' \<noteq> str_of ''OPEN''"
  "str_of ''NEGOTIATE'' \<noteq> str_of ''DATA''" "str_of ''NEGOTIATE'' \<noteq> str_of ''CLOSE''"
  by (simp_all add: str_of_def)

lemma dispatch_DATA: "dispatch L (str_of ''DATA'') d h = process_data L d h"
  by (simp add: dispatch_def type_names_distinct)

lemma dispatch_OPEN: "dispatch L (str_of ''OPEN'') d h = process_open L d h"
  by (simp add: dispatch_def type_names_distinct)


lemma dispatch_NEGOTIATE: "dispatch L (str_of ''NEGOTIATE'') d h = process_negotiate d h"
  by (simp add: dispatch_def type_names_distinct)

lemma dispatch_DH: "dispatch L (str_of ''DH_KEY_EXCHANGE'') d h =
   (case dict_get d (str_of ''data'') of
           JObj d' \<Rightarrow> get_key L (dict_get d' (str_of ''pub_key'')) h
         | _ \<Rightarrow> (Raise AttributeError, h))"
  by (simp add: dispatch_def)

lemma process_open_True_state:
  "process_open L d h = (Ret True, h1) \<Longrightarrow> state h = STATE_CONNECT \<and> state h1 = STATE_OPEN"
  by (auto simp: process_open_def Let_def send_def split: if_splits sum.splits option.splits prod.splits)

lemmas sample_frames =
  open_frame_def data_frame_1_def data_frame_2_def close_frame_def negotiate_frame_def
  negotiate_frame_2_def dh_frame_def dh_bad_frame_def ping_frame_def dots_frame_def
  accent_frame_def accent_name_def empty_object_frame_def number_type_frame_def
  list_frame_def

lemma sample_loads:
  "json_loads sample_lib open_frame = Some (JObj open_message)"
  "json_loads sample_lib data_frame_1 = Some (JObj data_message_1)"
  "json_loads sample_lib data_frame_2 = Some (JObj data_message_2)"
  "json_loads sample_lib close_frame = Some (JObj close_message)"
  "json_loads sample_lib negotiate_frame = Some (JObj negotiate_message)"
  "json_loads sample_lib negotiate_frame_2 = Some (JObj negotiate_message_2)"
  "json_loads sample_lib dh_frame = Some (JObj dh_message)"
  "json_loads sample_lib dh_bad_frame = Some (JObj dh_bad_message)"
  "json_loads sample_lib ping_frame = Some (JObj ping_message)"
  "json_loads sample_lib dots_frame = Some (JObj dots_message)"
  by (simp_all add: sample_lib_def sample_frames str_of_def)

lemma sample_types:
  "message_type sample_lib (JObj open_message) = Inr (str_of ''OPEN'')"
  "message_type sample_lib (JObj data_message_1) = Inr (str_of ''DATA'')"
  "message_type sample_lib (JObj data_message_2) = Inr (str_of ''DATA'')"
  "message_type sample_lib (JObj close_message) = Inr (str_of ''CLOSE'')"
  "message_type sample_lib (JObj negotiate_message) = Inr (str_of ''NEGOTIATE'')"
  "message_type sample_lib (JObj negotiate_message_2) = Inr (str_of ''NEGOTIATE'')"
  "message_type sample_lib (JObj dh_message) = Inr (str_of ''DH_KEY_EXCHANGE'')"
  "message_type sample_lib (JObj dh_bad_message) = Inr (str_of ''DH_KEY_EXCHANGE'')"
  "message_type sample_lib (JObj ping_message) = Inr (str_of ''PING'')"
  "message_type sample_lib (JObj dots_message) = Inr (str_of ''OPEN'')"
  by (simp_all add: message_type_def dict_get_default_def py_upper_def upper_char_def
        open_message_def data_message_1_def data_message_2_def close_message_def
        negotiate_message_def negotiate_message_2_def dh_message_def dh_bad_message_def
        ping_message_def dots_message_def str_of_def)

lemma sample_frame_messages:
  "frame_message sample_lib open_frame (str_of ''OPEN'') open_message"
  "frame_message sample_lib data_frame_1 (str_of ''DATA'') data_message_1"
  "frame_message sample_lib data_frame_2 (str_of ''DATA'') data_message_2"
  "frame_message sample_lib close_frame (str_of ''CLOSE'') close_message"
  "frame_message sample_lib negotiate_frame (str_of ''NEGOTIATE'') negotiate_message"
  "frame_message sample_lib negotiate_frame_2 (str_of ''NEGOTIATE'') negotiate_message_2"
  "frame_message sample_lib dh_frame (str_of ''DH_KEY_EXCHANGE'') dh_message"
  "frame_message sample_lib dh_bad_frame (str_of ''DH_KEY_EXCHANGE'') dh_bad_message"
  "frame_message sample_lib ping_frame (str_of ''PING'') ping_message"
  "frame_message sample_lib dots_frame (str_of ''OPEN'') dots_message"
  by (simp_all add: frame_message_def sample_loads sample_types)

lemma sample_open: "process_open sample_lib open_message sample_handler = (Ret True, opened_handler)"
  by (simp add: process_open_def sample_handler_def connection_made_def ClientHandler_def send_def Let_def open_message_def dict_has_def
      dict_get_def re_sub_nonword_def sanitize_def is_word_def os_path_join_def
      os_path_exists_def resolve_def sample_fs_def open_wb_def opened_handler_def
      str_of_def)

lemma on_frame_sample_open: "on_frame sample_lib open_frame sample_handler = (Ret (), opened_handler)"
  by (simp add: on_frame_message [OF sample_frame_messages(1)] dispatch_OPEN sample_open)
lemma get_key_ok:
  assumes "load_pem_public_key L pem = Inr pk" "private_key h = Some sk"
    "exchange L sk pk = Inr shared"
  shows "get_key L (JStr pem) h = (Ret True, h\<lparr>key := Some (hkdf_derive L shared)\<rparr>)"
  using assms by (simp add: get_key_def)

lemma get_key_True:
  "get_key L k h = (Ret True, h1) \<Longrightarrow> \<exists>kb. h1 = h\<lparr>key := Some kb\<rparr>"
  by (auto simp: get_key_def split: json.splits sum.splits option.splits)

lemma choose_algo_state: "state (snd (choose_algo a b c h)) = state h"
  by (simp add: choose_algo_def Let_def split: sum.splits option.splits)

lemma process_negotiate_state: "state (snd (process_negotiate d h)) = state h"
  using choose_algo_state [of "dict_get d (str_of ''ciphers'')"
      "dict_get d (str_of ''modes'')" "dict_get d (str_of ''sinteses'')" h]
  by (auto simp: process_negotiate_def send_def split: prod.splits res.splits)

lemma process_negotiate_True:
  "process_negotiate d h = (Ret True, h1) \<Longrightarrow> state h = STATE_CONNECT"
  by (auto simp: process_negotiate_def split: if_splits prod.splits res.splits)

lemma sample_dh_fields:
  "dict_get dh_message (str_of ''data'') = JObj [(str_of ''pub_key'', JStr (str_of ''PEM 19''))]"
  "dict_get [(str_of ''pub_key'', JStr (str_of ''PEM 19''))] (str_of ''pub_key'')
     = JStr (str_of ''PEM 19'')"
  "load_pem_public_key sample_lib (str_of ''PEM 19'') = Inr 19"
  "exchange sample_lib 6 19 = Inr [2]" "hkdf_derive sample_lib [2] = [2]"
  by (simp_all add: dh_message_def dict_get_def str_of_def sample_lib_def)

lemma sample_private_key:
  "private_key sample_handler = Some 6" "private_key opened_handler = Some 6"
  by (simp_all add: opened_handler_def sample_handler_def connection_made_def ClientHandler_def send_def Let_def)

lemma sample_key:
  "on_frame sample_lib dh_frame opened_handler = (Ret (), opened_handler\<lparr>key := Some [2]\<rparr>)"
proof -
  have "get_key sample_lib (JStr (str_of ''PEM 19'')) opened_handler
      = (Ret True, opened_handler\<lparr>key := Some [2]\<rparr>)"
    using get_key_ok [OF sample_dh_fields(3) sample_private_key(2) sample_dh_fields(4)]
    by (simp add: sample_dh_fields(5))
  then show ?thesis
    by (simp add: on_frame_message [OF sample_frame_messages(7)] dispatch_DH sample_dh_fields)
qed

lemma dict_has_index: "dict_has d k \<Longrightarrow> \<exists>v. dict_index d k = Inr v"
  by (cases "map_of d k") (auto simp: dict_has_def dict_index_def map_of_eq_None_iff)

lemma sample_bad: "json_loads sample_lib bad_frame = None"
  by (simp add: sample_lib_def sample_frames bad_frame_def str_of_def)

lemma sample_untyped:
  "json_loads sample_lib empty_object_frame = Some (JObj [])"
  "json_loads sample_lib number_type_frame = Some (JObj [(str_of ''type'', JInt 5)])"
  "json_loads sample_lib list_frame = Some (JArr [JInt 1])"
  by (simp_all add: sample_lib_def sample_frames str_of_def)

subsection \<open>Frames without a usable type\<close>

lemma on_frame_not_json:
  "json_loads L frame = None \<Longrightarrow> on_frame L frame h = (Ret (), h\<lparr>transport_closed := True\<rparr>)"
  by (simp add: on_frame_def)

lemma type_names_not_empty:
  "[] \<noteq> str_of ''DH_KEY_EXCHANGE''" "[] \<noteq> str_of ''OPEN''" "[] \<noteq> str_of ''DATA''"
  "[] \<noteq> str_of ''CLOSE''" "[] \<noteq> str_of ''NEGOTIATE''"
  by (simp_all add: str_of_def)

lemma on_frame_no_type:
  assumes "json_loads L frame = Some (JObj d)" "\<not> dict_has d (str_of ''type'')"
  shows "on_frame L frame h = (Raise KeyError, h)"
proof -
  have m: "map_of d (str_of ''type'') = None"
    using assms(2) by (simp add: dict_has_def map_of_eq_None_iff)
  then have t: "message_type L (JObj d) = Inr []"
    by (simp add: message_type_def dict_get_default_def py_upper_def)
  have "dispatch L [] d h = (Raise KeyError, h)"
    using m by (simp add: dispatch_def type_names_not_empty dict_index_def)
  with assms(1) t show ?thesis by (simp add: on_frame_def)
qed

lemma on_frame_type_not_str:
  assumes "json_loads L frame = Some (JObj d)" "map_of d (str_of ''type'') = Some v"
    "\<And>t. v \<noteq> JStr t"
  shows "on_frame L frame h = (Raise AttributeError, h)"
proof -
  have "message_type L (JObj d) = Inl AttributeError"
    using assms(2,3) by (cases v) (auto simp: message_type_def dict_get_default_def)
  with assms(1) show ?thesis by (simp add: on_frame_def)
qed

lemma on_frame_not_dict:
  assumes "json_loads L frame = Some v" "\<And>d. v \<noteq> JObj d"
  shows "on_frame L frame h = (Raise AttributeError, h)"
proof -
  have "message_type L v = Inl AttributeError"
    using assms(2) by (cases v) (auto simp: message_type_def)
  with assms(1) show ?thesis by (simp add: on_frame_def)
qed

lemma on_frame_unknown_type:
  assumes "frame_message L frame T d" "dict_has d (str_of ''type'')"
    "T \<noteq> str_of ''DH_KEY_EXCHANGE''" "T \<noteq> str_of ''OPEN''" "T \<noteq> str_of ''DATA''"
    "T \<noteq> str_of ''CLOSE''" "T \<noteq> str_of ''NEGOTIATE''"
  shows "on_frame L frame h = (Ret (), fail_closed h)"
proof -
  obtain v where "dict_index d (str_of ''type'') = Inr v"
    using assms(2) dict_has_index by blast
  with assms(3-7) have "dispatch L T d h = (Ret False, h)" by (simp add: dispatch_def)
  then show ?thesis by (simp add: on_frame_message [OF assms(1)])
qed

subsection \<open>The invariant of the file handle\<close>

lemma handle_inv_init: "handle_inv (connection_made p g sk pub_key (ClientHandler sd F))"
  by (simp add: handle_inv_def connection_made_def ClientHandler_def send_def)

lemma fail_closed_inv: "handle_inv (fail_closed h)"
  by (simp add: handle_inv_def fail_closed_def send_def)

lemma process_open_inv: "handle_inv h \<Longrightarrow> handle_inv (snd (process_open L d h))"
  by (auto simp: process_open_def handle_inv_def Let_def send_def
      split: sum.splits option.splits prod.splits)

lemma process_data_inv: "handle_inv h \<Longrightarrow> handle_inv (snd (process_data L d h))"
  by (auto simp: process_data_def handle_inv_def Let_def split: json.splits option.splits)

lemma process_close_inv: "handle_inv (snd (process_close d h))"
  by (simp add: process_close_def handle_inv_def)

lemma get_key_inv: "handle_inv h \<Longrightarrow> handle_inv (snd (get_key L k h))"
  by (auto simp: get_key_def handle_inv_def split: json.splits sum.splits option.splits)

lemma choose_algo_inv: "handle_inv h \<Longrightarrow> handle_inv (snd (choose_algo a b c h))"
  by (auto simp: choose_algo_def handle_inv_def Let_def split: sum.splits option.splits)

lemma process_negotiate_inv: "handle_inv h \<Longrightarrow> handle_inv (snd (process_negotiate d h))"
  using choose_algo_inv [of h "dict_get d (str_of ''ciphers'')"
      "dict_get d (str_of ''modes'')" "dict_get d (str_of ''sinteses'')"]
  by (auto simp: process_negotiate_def send_def handle_inv_def split: prod.splits res.splits)

lemma dispatch_inv: "handle_inv h \<Longrightarrow> handle_inv (snd (dispatch L T d h))"
  by (simp add: dispatch_def process_open_inv process_data_inv process_close_inv get_key_inv
      process_negotiate_inv split: json.splits sum.splits)

lemma on_frame_inv:
  assumes "handle_inv h"
  shows "handle_inv (snd (on_frame L frame h))"
proof (cases "json_loads L frame")
  case None
  with assms show ?thesis by (simp add: on_frame_def handle_inv_def)
next
  case (Some message)
  show ?thesis
  proof (cases "message_type L message")
    case (Inl e)
    with Some assms show ?thesis by (simp add: on_frame_def)
  next
    case (Inr mtype)
    have "handle_inv (snd (dispatch L mtype (case message of JObj d \<Rightarrow> d | _ \<Rightarrow> []) h))"
      using assms by (rule dispatch_inv)
    with Some Inr show ?thesis
      by (auto simp: on_frame_def fail_closed_inv split: prod.splits res.splits)
  qed
qed

lemma frame_loop_inv: "handle_inv h \<Longrightarrow> handle_inv (snd (frame_loop L h))"
proof (induction L h rule: frame_loop.induct)
  case (1 L h)
  define idx where "idx = py_find (buffer h) CRLF"
  define frame where "frame = py_strip (take (nat (idx + 2)) (buffer h))"
  define h1 where "h1 = h\<lparr>buffer := drop (nat (idx + 2)) (buffer h)\<rparr>"
  show ?case
  proof (cases "0 \<le> idx")
    case False
    then show ?thesis using "1.prems"
      by (subst frame_loop.simps) (simp add: idx_def Let_def)
  next
    case True
    have i1: "handle_inv h1" using "1.prems" by (simp add: h1_def handle_inv_def)
    obtain x y where xy: "on_frame L frame h1 = (x, y)" by (cases "on_frame L frame h1")
    have iy: "handle_inv y" using on_frame_inv [OF i1, of L frame] xy by simp
    show ?thesis
    proof (cases x)
      case (Raise e)
      with True xy iy show ?thesis
        by (subst frame_loop.simps) (simp add: idx_def [symmetric] Let_def frame_def [symmetric] h1_def [symmetric])
    next
      case (Ret u)
      have "handle_inv (snd (frame_loop L y))"
        using "1.IH" [OF idx_def True frame_def h1_def xy [symmetric] Ret iy] .
      with True xy Ret show ?thesis
        by (subst frame_loop.simps) (simp add: idx_def [symmetric] Let_def frame_def [symmetric] h1_def [symmetric])
    qed
  qed
qed

lemma data_received_inv: "handle_inv h \<Longrightarrow> handle_inv (snd (data_received L data h))"
proof -
  assume a: "handle_inv h"
  define h1 where "h1 = (case utf8_decode data of
                  Some text \<Rightarrow> h\<lparr>buffer := buffer h @ text\<rparr>
                | None \<Rightarrow> h)"
  have "handle_inv h1" using a by (simp add: h1_def handle_inv_def split: option.splits)
  then have "handle_inv (snd (frame_loop L h1))" by (rule frame_loop_inv)
  then show ?thesis
    by (auto simp: data_received_def h1_def [symmetric] handle_inv_def split: prod.splits res.splits)
qed

lemma deliver_inv: "handle_inv h \<Longrightarrow> handle_inv (snd (deliver L chunks h))"
proof (induction chunks arbitrary: h)
  case Nil
  then show ?case by (simp add: deliver.simps)
next
  case (Cons data rest)
  obtain x y where xy: "data_received L data h = (x, y)" by (cases "data_received L data h")
  have "handle_inv y" using data_received_inv [OF Cons.prems, of L data] xy by simp
  then show ?case using Cons.IH [of y] xy by (cases x) (simp_all add: deliver.simps)
qed
lemma process_data_writes:
  assumes "handle_inv h" "state h = STATE_OPEN \<or> state h = STATE_DATA"
    "dict_get d (str_of ''data'') = JStr p" "b64decode L p = Some bdata" "\<not> full (fs h)"
  shows "\<exists>q F. file_handle h = Some q \<and> file_write (fs h) q bdata = Some F
      \<and> process_data L d h = (Ret True, h\<lparr>state := STATE_DATA, fs := F\<rparr>)"
proof -
  from assms(1,2) obtain q where q: "file_handle h = Some q"
    by (auto simp: handle_inv_def)
  from assms(5) obtain F where F: "file_write (fs h) q bdata = Some F"
    by (cases "files (fs h) q") (simp_all add: file_write_def)
  from assms(2) have "process_data L d h = (Ret True, h\<lparr>state := STATE_DATA, fs := F\<rparr>)"
  proof
    assume "state h = STATE_OPEN"
    then show ?thesis using assms(3,4) q F by (simp add: process_data_def)
  next
    assume s: "state h = STATE_DATA"
    then have "h\<lparr>state := STATE_DATA\<rparr> = h" by (metis handler.surjective handler.update_convs(1))
    then show ?thesis using assms(3,4) q F s by (simp add: process_data_def)
  qed
  with q F show ?thesis by blast
qed

lemma sample_data_fields:
  "dict_get data_message_1 (str_of ''data'') = JStr (str_of ''aGVsbG8='')"
  "b64decode sample_lib (str_of ''aGVsbG8='') = Some (map of_char ''hello'')"
  "dict_get data_message_2 (str_of ''data'') = JStr (str_of ''d29ybGQ='')"
  "b64decode sample_lib (str_of ''d29ybGQ='') = Some (map of_char ''world'')"
  by (simp_all add: data_message_1_def data_message_2_def dict_get_def sample_lib_def str_of_def)

lemma opened_handler_fields:
  "state opened_handler = STATE_OPEN"
  "file_handle opened_handler = Some [str_of ''srv'', str_of ''files'', str_of ''a.txt'']"
  "full (fs opened_handler) = False"
  "transport_out opened_handler = transport_out sample_handler @ [msg_OK]"
  "transport_closed opened_handler = False"
  by (simp_all add: opened_handler_def sample_handler_def connection_made_def ClientHandler_def send_def Let_def sample_fs_def)

subsection \<open>Negotiation\<close>

lemma choose_algo_fields:
  assumes "partial_choice cs ms hs = (c, m, dg)"
  shows "choose_algo (JArr cs) (JArr ms) (JArr hs) h =
     (Ret (dg \<noteq> None),
      h\<lparr>cipher := chosen_or c (cipher h), mode := chosen_or m (mode h),
        hash_function := chosen_or dg (hash_function h)\<rparr>)"
proof (cases "by_priority (str_of ''ChaCha20'') (str_of ''AES'') cs")
  case None
  with assms have "c = None" "m = None" "dg = None" by (simp_all add: partial_choice_def)
  with None show ?thesis
    by (simp add: choose_algo_def choose_from_JArr chosen_or_def)
next
  case c: (Some c')
  show ?thesis
  proof (cases "by_priority (str_of ''GCM'') (str_of ''CBC'') ms")
    case None
    with assms c have "c = Some c'" "m = None" "dg = None" by (simp_all add: partial_choice_def)
    with None c show ?thesis
      by (simp add: choose_algo_def choose_from_JArr chosen_or_def)
  next
    case m: (Some m')
    with assms c have e: "c = Some c'" "m = Some m'"
      "by_priority (str_of ''SHA-512'') (str_of ''SHA-256'') hs = dg"
      by (simp_all add: partial_choice_def)
    show ?thesis
    proof (cases dg)
      case None
      with e c m show ?thesis
        by (simp add: choose_algo_def choose_from_JArr chosen_or_def)
    next
      case (Some d')
      with e c m show ?thesis
        by (simp add: choose_algo_def choose_from_JArr chosen_or_def)
    qed
  qed
qed


lemma sample_negotiate_fields:
  "dict_has negotiate_message (str_of ''ciphers'')" "dict_has negotiate_message (str_of ''modes'')"
  "dict_has negotiate_message (str_of ''sinteses'')"
  "dict_get negotiate_message (str_of ''ciphers'')
     = JArr [JStr (str_of ''AES''), JStr (str_of ''ChaCha20'')]"
  "dict_get negotiate_message (str_of ''modes'')
     = JArr [JStr (str_of ''CBC''), JStr (str_of ''GCM'')]"
  "dict_get negotiate_message (str_of ''sinteses'')
     = JArr [JStr (str_of ''SHA-256''), JStr (str_of ''SHA-512'')]"
  "dict_has negotiate_message_2 (str_of ''ciphers'')"
  "dict_has negotiate_message_2 (str_of ''modes'')"
  "dict_has negotiate_message_2 (str_of ''sinteses'')"
  "dict_get negotiate_message_2 (str_of ''ciphers'') = JArr [JStr (str_of ''AES'')]"
  "dict_get negotiate_message_2 (str_of ''modes'') = JArr [JStr (str_of ''ECB'')]"
  "dict_get negotiate_message_2 (str_of ''sinteses'') = JArr []"
  by (simp_all add: negotiate_message_def negotiate_message_2_def dict_has_def dict_get_def
      str_of_def)

lemma sample_choices:
  "partial_choice [JStr (str_of ''AES''), JStr (str_of ''ChaCha20'')]
     [JStr (str_of ''CBC''), JStr (str_of ''GCM'')]
     [JStr (str_of ''SHA-256''), JStr (str_of ''SHA-512'')]
   = (Some (str_of ''ChaCha20''), Some (str_of ''GCM''), Some (str_of ''SHA-512''))"
  "partial_choice [JStr (str_of ''AES'')] [JStr (str_of ''ECB'')] []
   = (Some (str_of ''AES''), None, None)"
  by (simp_all add: partial_choice_def by_priority_def str_of_def)

lemma sample_negotiate:
  "process_negotiate negotiate_message sample_handler = (Ret True, negotiated_handler)"
proof -
  have s: "state sample_handler = STATE_CONNECT"
    by (simp add: sample_handler_def connection_made_def ClientHandler_def send_def Let_def)
  show ?thesis
    by (simp add: process_negotiate_def s sample_negotiate_fields
        choose_algo_fields [OF sample_choices(1)] chosen_or_def negotiated_handler_def send_def
        sample_handler_def connection_made_def ClientHandler_def Let_def)
qed

lemma sample_negotiate_2:
  "process_negotiate negotiate_message_2 negotiated_handler =
     (Ret False,
      negotiated_handler
        \<lparr>cipher := Some (str_of ''AES''),
         transport_out :=
           transport_out sample_handler
           @ [msg_CIPHER_CHOSEN (Some (str_of ''ChaCha20'')) (Some (str_of ''GCM''))
                (Some (str_of ''SHA-512'')),
              msg_CIPHER_CHOSEN (Some (str_of ''AES'')) (Some (str_of ''GCM''))
                (Some (str_of ''SHA-512''))]\<rparr>)"
proof -
  have s: "state negotiated_handler = STATE_CONNECT"
    by (simp add: negotiated_handler_def sample_handler_def connection_made_def ClientHandler_def send_def Let_def)
  show ?thesis
    by (simp add: process_negotiate_def s sample_negotiate_fields
        choose_algo_fields [OF sample_choices(2)] chosen_or_def negotiated_handler_def send_def
        sample_handler_def connection_made_def ClientHandler_def Let_def)
qed

subsection \<open>Key exchange\<close>

lemma get_key_raises:
  assumes "frame_message L frame (str_of ''DH_KEY_EXCHANGE'') d"
    "dict_get d (str_of ''data'') = JObj d'" "dict_get d' (str_of ''pub_key'') = JStr pem"
    "load_pem_public_key L pem = Inl e"
  shows "on_frame L frame h = (Raise e, h)"
  using assms(2-4) by (simp add: on_frame_message [OF assms(1)] dispatch_DH get_key_def)

lemma sample_dh_bad_fields:
  "dict_get dh_bad_message (str_of ''data'') = JObj [(str_of ''pub_key'', JStr (str_of ''garbage''))]"
  "dict_get [(str_of ''pub_key'', JStr (str_of ''garbage''))] (str_of ''pub_key'')
     = JStr (str_of ''garbage'')"
  "load_pem_public_key sample_lib (str_of ''garbage'') = Inl ValueError"
  by (simp_all add: dh_bad_message_def dict_get_def str_of_def sample_lib_def)

subsection \<open>Storage paths\<close>

lemma process_open_dirs:
  "dirs (fs (snd (process_open L d h))) = dirs (fs h)
   \<or> dirs (fs (snd (process_open L d h)))
       = insert (resolve (fs h) (str_of ''files'')) (dirs (fs h))"
  by (auto simp: process_open_def Let_def send_def os_mkdir_def open_wb_def
      split: sum.splits option.splits prod.splits if_splits)

lemma sanitize_no_separator:
  "47 \<notin> set (sanitize L s)" "92 \<notin> set (sanitize L s)" "0 \<notin> set (sanitize L s)"
  by (auto simp: sanitize_def is_word_def)

lemma sanitize_keeps:
  "set (sanitize L s) = {c \<in> set s. is_word L c \<or> c = 46}" "subseq (sanitize L s) s"
  by (auto simp: sanitize_def)

lemma split_on_not_Nil: "split_on d s \<noteq> []"
  by (induction s) (auto split: list.splits)

lemma split_on_append: "split_on d (a @ d # b) = split_on d a @ split_on d b"
proof (induction a)
  case Nil
  then show ?case by simp
next
  case (Cons c a)
  then show ?case using split_on_not_Nil [of d a]
    by (cases "split_on d a") (auto split: list.splits)
qed

lemma split_on_single: "d \<notin> set s \<Longrightarrow> split_on d s = [s]"
  by (induction s) auto

lemma walk_append: "walk cur (xs @ ys) = walk (walk cur xs) ys"
  by (induction xs arbitrary: cur) auto

lemma resolve_join:
  assumes "47 \<notin> set name"
  shows "resolve F (os_path_join sd name) = walk (resolve F sd) [name]"
proof -
  have hdn: "name \<noteq> [] \<Longrightarrow> hd name \<noteq> 47" using assms by (cases name) auto
  show ?thesis
  proof (cases "sd = []")
    case True
    then show ?thesis using hdn assms
      by (auto simp: os_path_join_def resolve_def split_on_single)
  next
    case False
    note ne = False
    show ?thesis
    proof (cases "last sd = 47")
      case True
      then obtain sd' where sd': "sd = sd' @ [47]" using ne by (metis append_butlast_last_id)
      have j: "os_path_join sd name = sd' @ 47 # name"
        using hdn True ne sd' by (auto simp: os_path_join_def)
      have h: "hd (sd' @ 47 # name) = hd sd" using sd' by (cases sd') auto
      have s1: "split_on 47 (sd' @ 47 # name) = split_on 47 sd' @ [name]"
        using assms by (simp add: split_on_append split_on_single)
      have s2: "split_on 47 sd = split_on 47 sd' @ [[]]"
        using sd' split_on_append [of 47 sd' "[]"] by simp
      show ?thesis using ne by (simp add: j resolve_def h s1 s2 walk_append)
    next
      case False
      have j: "os_path_join sd name = sd @ 47 # name"
        using hdn False ne by (auto simp: os_path_join_def)
      have h: "hd (sd @ 47 # name) = hd sd" using ne by (cases sd) auto
      have s1: "split_on 47 (sd @ 47 # name) = split_on 47 sd @ [name]"
        using assms by (simp add: split_on_append split_on_single)
      show ?thesis using ne by (simp add: j resolve_def h s1 walk_append)
    qed
  qed
qed

lemma sanitize_traversal:
  "sanitize L (str_of ''../../etc/passwd'') = str_of ''....etcpasswd''"
  by (simp add: sanitize_def is_word_def str_of_def)

lemma sanitized_path:
  "resolve F (os_path_join sd (sanitize L s)) =
     (if sanitize L s = [] \<or> sanitize L s = str_of ''.'' then resolve F sd
      else if sanitize L s = str_of ''..'' then butlast (resolve F sd)
      else resolve F sd @ [sanitize L s])"
  by (simp add: resolve_join [OF sanitize_no_separator(1)])

subsection \<open>Reassembly of frames\<close>




















subsection \<open>A legal session\<close>





lemma is_data_frameD:
  assumes "is_data_frame L f payload"
  obtains d p where "frame_message L f (str_of ''DATA'') d"
    "dict_get d (str_of ''data'') = JStr p" "b64decode L p = Some payload"
  using assms
  by (auto simp: is_data_frame_def frame_message_def split: option.splits json.splits)



lemma on_frame_data:
  assumes "is_data_frame L f payload" "state h = STATE_OPEN \<or> state h = STATE_DATA"
    "file_handle h = Some q" "files (fs h) q = Some content" "\<not> full (fs h)"
  shows "on_frame L f h =
     (Ret (),
      h\<lparr>state := STATE_DATA, fs := (fs h)\<lparr>files := (files (fs h))(q \<mapsto> content @ payload)\<rparr>\<rparr>)"
proof -
  from assms(1) obtain d p where m: "frame_message L f (str_of ''DATA'') d"
    and p: "dict_get d (str_of ''data'') = JStr p" "b64decode L p = Some payload"
    by (rule is_data_frameD)
  have w: "file_write (fs h) q payload
      = Some ((fs h)\<lparr>files := (files (fs h))(q \<mapsto> content @ payload)\<rparr>)"
    using assms(4,5) by (simp add: file_write_def)
  have "process_data L d h =
     (Ret True,
      h\<lparr>state := STATE_DATA, fs := (fs h)\<lparr>files := (files (fs h))(q \<mapsto> content @ payload)\<rparr>\<rparr>)"
    using assms(2)
  proof
    assume "state h = STATE_OPEN"
    then show ?thesis using p assms(3) w by (simp add: process_data_def)
  next
    assume s: "state h = STATE_DATA"
    then have "h\<lparr>state := STATE_DATA\<rparr> = h"
      by (metis handler.surjective handler.update_convs(1))
    then show ?thesis using p assms(3) w s
      by (simp add: process_data_def)
  qed
  then show ?thesis by (simp add: on_frame_message [OF m] dispatch_DATA)
qed




subsection \<open>The sample session\<close>












lemma sample_session_frames:
  "is_open_frame sample_lib open_frame (str_of ''a.txt'')"
  "is_data_frame sample_lib data_frame_1 (bytes_of ''hello'')"
  "is_data_frame sample_lib data_frame_2 (bytes_of ''world'')"
  "is_close_frame sample_lib close_frame"
  "is_open_frame sample_lib accent_frame accent_name"
proof -
  have a: "json_loads sample_lib accent_frame = Some (JObj accent_message)"
    by (simp add: sample_lib_def sample_frames str_of_def)
  have t: "message_type sample_lib (JObj accent_message) = Inr (str_of ''OPEN'')"
    by (simp add: message_type_def accent_message_def dict_get_default_def py_upper_def
        upper_char_def str_of_def)
  have n: "dict_get open_message (str_of ''file_name'') = JStr (str_of ''a.txt'')"
    "dict_get accent_message (str_of ''file_name'') = JStr accent_name"
    by (simp_all add: open_message_def accent_message_def dict_get_def str_of_def)
  show "is_open_frame sample_lib open_frame (str_of ''a.txt'')"
    by (simp add: is_open_frame_def sample_loads sample_types n)
  show "is_data_frame sample_lib data_frame_1 (bytes_of ''hello'')"
    by (simp add: is_data_frame_def sample_loads sample_types sample_data_fields bytes_of_def)
  show "is_data_frame sample_lib data_frame_2 (bytes_of ''world'')"
    by (simp add: is_data_frame_def sample_loads sample_types sample_data_fields bytes_of_def)
  show "is_close_frame sample_lib close_frame"
    by (simp add: is_close_frame_def sample_loads sample_types)
  show "is_open_frame sample_lib accent_frame accent_name"
    by (simp add: is_open_frame_def a t n)
qed



section \<open>The claims\<close>




text \<open>
  Claim C2 does not hold of the code. A frame that \<^verbatim>\<open>json.loads\<close> reads as an object
  with no type reaches the last branch of \<^verbatim>\<open>on_frame\<close>, whose warning formats
  \<^verbatim>\<open>message['type']\<close>: \<^verbatim>\<open>KeyError\<close> leaves \<^verbatim>\<open>on_frame\<close> before \<^verbatim>\<open>ret\<close> is set. A type that is
  not a str, and a value that is not an object, raise \<^verbatim>\<open>AttributeError\<close> at
  \<^verbatim>\<open>message.get('type', "").upper()\<close>. A frame that is not JSON closes the transport and
  returns. On the sample handler after its OPEN message, none of the four sends the error
  frame, closes the file or leaves the state OPEN, and after the frame that is not JSON a
  DATA frame of the same chunk is still written to the file. Only a type that is a str
  other than the five message types gets the handling of a fatal outcome (lemma
  \<open>on_frame_unknown_type\<close>).
\<close>

theorem unusable_type_not_fatal:
  "on_frame sample_lib open_frame sample_handler = (Ret (), opened_handler)
   \<and> json_loads sample_lib empty_object_frame = Some (JObj [])
   \<and> on_frame sample_lib empty_object_frame opened_handler = (Raise KeyError, opened_handler)
   \<and> json_loads sample_lib number_type_frame = Some (JObj [(str_of ''type'', JInt 5)])
   \<and> on_frame sample_lib number_type_frame opened_handler
       = (Raise AttributeError, opened_handler)
   \<and> json_loads sample_lib list_frame = Some (JArr [JInt 1])
   \<and> on_frame sample_lib list_frame opened_handler = (Raise AttributeError, opened_handler)
   \<and> json_loads sample_lib bad_frame = None
   \<and> on_frame sample_lib bad_frame opened_handler
       = (Ret (), opened_handler\<lparr>transport_closed := True\<rparr>)
   \<and> \<not> fatal opened_handler opened_handler
   \<and> \<not> fatal opened_handler (opened_handler\<lparr>transport_closed := True\<rparr>)
   \<and> state opened_handler = STATE_OPEN
   \<and> file_handle opened_handler = Some [str_of ''srv'', str_of ''files'', str_of ''a.txt'']
   \<and> run_frames sample_lib [bad_frame, data_frame_1] opened_handler =
       (Ret (),
        opened_handler
          \<lparr>state := STATE_DATA, transport_closed := True,
           fs := (fs opened_handler)
             \<lparr>files := (files (fs opened_handler))
                ([str_of ''srv'', str_of ''files'', str_of ''a.txt''] \<mapsto> bytes_of ''hello'')\<rparr>\<rparr>)"
proof -
  have e: "on_frame sample_lib empty_object_frame opened_handler = (Raise KeyError, opened_handler)"
    by (rule on_frame_no_type [OF sample_untyped(1)]) (simp add: dict_has_def)
  have n: "on_frame sample_lib number_type_frame opened_handler
       = (Raise AttributeError, opened_handler)"
    by (rule on_frame_type_not_str [OF sample_untyped(2), of "JInt 5"]) simp_all
  have l: "on_frame sample_lib list_frame opened_handler = (Raise AttributeError, opened_handler)"
    by (rule on_frame_not_dict [OF sample_untyped(3)]) simp
  have b: "on_frame sample_lib bad_frame opened_handler
       = (Ret (), opened_handler\<lparr>transport_closed := True\<rparr>)"
    by (rule on_frame_not_json [OF sample_bad])
  have f: "\<not> fatal opened_handler opened_handler"
    "\<not> fatal opened_handler (opened_handler\<lparr>transport_closed := True\<rparr>)"
    by (simp_all add: fatal_def opened_handler_fields)
  have c: "files (fs opened_handler) [str_of ''srv'', str_of ''files'', str_of ''a.txt''] = Some []"
    by (simp add: opened_handler_def)
  have d: "on_frame sample_lib data_frame_1 (opened_handler\<lparr>transport_closed := True\<rparr>) =
       (Ret (),
        opened_handler
          \<lparr>state := STATE_DATA, transport_closed := True,
           fs := (fs opened_handler)
             \<lparr>files := (files (fs opened_handler))
                ([str_of ''srv'', str_of ''files'', str_of ''a.txt''] \<mapsto> bytes_of ''hello'')\<rparr>\<rparr>)"
    using on_frame_data [OF sample_session_frames(2),
        of "opened_handler\<lparr>transport_closed := True\<rparr>"
          "[str_of ''srv'', str_of ''files'', str_of ''a.txt'']" "[]"]
    by (simp add: opened_handler_fields c)
  have r: "run_frames sample_lib [bad_frame, data_frame_1] opened_handler =
       (Ret (),
        opened_handler
          \<lparr>state := STATE_DATA, transport_closed := True,
           fs := (fs opened_handler)
             \<lparr>files := (files (fs opened_handler))
                ([str_of ''srv'', str_of ''files'', str_of ''a.txt''] \<mapsto> bytes_of ''hello'')\<rparr>\<rparr>)"
    by (simp add: b d)
  show ?thesis
    using on_frame_sample_open sample_untyped sample_bad e n l b f r
      opened_handler_fields(1,2)
    by (intro conjI)
qed

text \<open>
  Claim C3 does not hold of the code: \<^verbatim>\<open>get_key\<close> catches nothing. The sample handler
  receives a DH_KEY_EXCHANGE message whose key the library refuses with \<^verbatim>\<open>ValueError\<close>:
  the exception leaves \<^verbatim>\<open>on_frame\<close>, with no error frame written and the transport not
  closed by the handler.
\<close>

theorem malformed_peer_key_escapes:
  "frame_message sample_lib dh_bad_frame (str_of ''DH_KEY_EXCHANGE'') dh_bad_message
   \<and> load_pem_public_key sample_lib (str_of ''garbage'') = Inl ValueError
   \<and> on_frame sample_lib dh_bad_frame sample_handler = (Raise ValueError, sample_handler)
   \<and> msg_ERROR \<notin> set (transport_out sample_handler)
   \<and> transport_closed sample_handler = False"
proof (intro conjI)
  show "frame_message sample_lib dh_bad_frame (str_of ''DH_KEY_EXCHANGE'') dh_bad_message"
    by (rule sample_frame_messages(8))
  show "load_pem_public_key sample_lib (str_of ''garbage'') = Inl ValueError"
    by (rule sample_dh_bad_fields(3))
  show "on_frame sample_lib dh_bad_frame sample_handler = (Raise ValueError, sample_handler)"
    by (rule get_key_raises [OF sample_frame_messages(8) sample_dh_bad_fields])
  show "msg_ERROR \<notin> set (transport_out sample_handler)"
    "transport_closed sample_handler = False"
    by (simp_all add: sample_handler_def connection_made_def ClientHandler_def send_def Let_def
        msg_ERROR_def msg_DH_INIT_def msg_DH_KEY_EXCHANGE_def str_of_def)
qed

text \<open>
  Claim C4, as the code has it. A NEGOTIATE message in a state other than CONNECT gets the
  handling of a fatal outcome, and \<^verbatim>\<open>process_negotiate\<close> returns \<^verbatim>\<open>True\<close> only in CONNECT,
  where it leaves the state. \<^verbatim>\<open>get_key\<close> reads no state: a DH_KEY_EXCHANGE message whose key
  loads and exchanges is handled in every state, stores the derived key and changes nothing
  else, so it leaves the state as it was.
\<close>

theorem negotiate_gated_key_exchange_not:
  "(frame_message L frame (str_of ''NEGOTIATE'') d \<and> state h \<noteq> STATE_CONNECT \<longrightarrow>
      fst (on_frame L frame h) = Ret () \<and> fatal h (snd (on_frame L frame h)))
   \<and> (process_negotiate d h = (Ret True, h1) \<longrightarrow>
      state h = STATE_CONNECT \<and> state h1 = STATE_CONNECT)
   \<and> (frame_message L frame (str_of ''DH_KEY_EXCHANGE'') d
       \<and> dict_get d (str_of ''data'') = JObj d'
       \<and> dict_get d' (str_of ''pub_key'') = JStr pem
       \<and> load_pem_public_key L pem = Inr pk \<and> private_key h = Some sk
       \<and> exchange L sk pk = Inr shared \<longrightarrow>
      on_frame L frame h = (Ret (), h\<lparr>key := Some (hkdf_derive L shared)\<rparr>))
   \<and> (get_key L k h = (Ret True, h1) \<longrightarrow> state h1 = state h)"
proof (intro conjI impI)
  assume a: "frame_message L frame (str_of ''NEGOTIATE'') d \<and> state h \<noteq> STATE_CONNECT"
  then have "process_negotiate d h = (Ret False, h)" by (simp add: process_negotiate_def)
  then have r: "on_frame L frame h = (Ret (), fail_closed h)"
    by (simp add: on_frame_message [OF conjunct1 [OF a]] dispatch_NEGOTIATE)
  show "fst (on_frame L frame h) = Ret ()" "fatal h (snd (on_frame L frame h))"
    by (simp_all add: r fatal_fail_closed)
next
  assume a: "process_negotiate d h = (Ret True, h1)"
  then show "state h = STATE_CONNECT" by (rule process_negotiate_True)
  with a show "state h1 = STATE_CONNECT"
    using process_negotiate_state [of d h] by simp
next
  assume a: "frame_message L frame (str_of ''DH_KEY_EXCHANGE'') d
       \<and> dict_get d (str_of ''data'') = JObj d'
       \<and> dict_get d' (str_of ''pub_key'') = JStr pem
       \<and> load_pem_public_key L pem = Inr pk \<and> private_key h = Some sk
       \<and> exchange L sk pk = Inr shared"
  then have "get_key L (JStr pem) h = (Ret True, h\<lparr>key := Some (hkdf_derive L shared)\<rparr>)"
    by (simp add: get_key_ok)
  with a show "on_frame L frame h = (Ret (), h\<lparr>key := Some (hkdf_derive L shared)\<rparr>)"
    by (simp add: on_frame_message [OF conjunct1 [OF a]] dispatch_DH)
next
  assume "get_key L k h = (Ret True, h1)"
  then obtain kb where "h1 = h\<lparr>key := Some kb\<rparr>" using get_key_True by blast
  then show "state h1 = state h" by simp
qed

text \<open>
  The claim as written fails for DH_KEY_EXCHANGE: after its OPEN message the sample
  handler is in state OPEN, and the key exchange is handled there with no fatal outcome.
\<close>

theorem key_exchange_outside_connect:
  "on_frame sample_lib open_frame sample_handler = (Ret (), opened_handler)
   \<and> state opened_handler = STATE_OPEN
   \<and> frame_message sample_lib dh_frame (str_of ''DH_KEY_EXCHANGE'') dh_message
   \<and> on_frame sample_lib dh_frame opened_handler = (Ret (), opened_handler\<lparr>key := Some [2]\<rparr>)
   \<and> \<not> fatal opened_handler (snd (on_frame sample_lib dh_frame opened_handler))"
  by (simp add: on_frame_sample_open sample_frame_messages sample_key fatal_def)
    (simp add: opened_handler_def)

theorem negotiate_gated_key_exchange_not_witness:
  "frame_message sample_lib negotiate_frame (str_of ''NEGOTIATE'') negotiate_message
   \<and> state opened_handler = STATE_OPEN
   \<and> fatal opened_handler (snd (on_frame sample_lib negotiate_frame opened_handler))
   \<and> fst (process_negotiate negotiate_message sample_handler) = Ret True
   \<and> state (snd (process_negotiate negotiate_message sample_handler)) = STATE_CONNECT
   \<and> on_frame sample_lib dh_frame opened_handler = (Ret (), opened_handler\<lparr>key := Some [2]\<rparr>)
   \<and> get_key sample_lib (JStr (str_of ''PEM 19'')) opened_handler
       = (Ret True, opened_handler\<lparr>key := Some [2]\<rparr>)
   \<and> state (opened_handler\<lparr>key := Some [2]\<rparr>) = STATE_OPEN"
proof -
  have o: "state opened_handler = STATE_OPEN" by (simp add: opened_handler_def)
  have c: "state sample_handler = STATE_CONNECT"
    by (simp add: sample_handler_def connection_made_def ClientHandler_def send_def Let_def)
  obtain h1 where n: "process_negotiate negotiate_message sample_handler = (Ret True, h1)"
    by (simp add: process_negotiate_def c negotiate_message_def dict_has_def dict_get_def
        choose_algo_def choose_from_JArr by_priority_def str_of_def split: prod.splits)
  have k: "get_key sample_lib (JStr (str_of ''PEM 19'')) opened_handler
      = (Ret True, opened_handler\<lparr>key := Some [2]\<rparr>)"
    using get_key_ok [OF sample_dh_fields(3) sample_private_key(2) sample_dh_fields(4)]
    by (simp add: sample_dh_fields(5))
  note t = negotiate_gated_key_exchange_not
    [where L = sample_lib and frame = negotiate_frame and d = negotiate_message
       and h = opened_handler]
  note u = negotiate_gated_key_exchange_not
    [where d = negotiate_message and h = sample_handler and ?h1.0 = h1]
  note v = negotiate_gated_key_exchange_not
    [where L = sample_lib and frame = dh_frame and d = dh_message and h = opened_handler
       and d' = "[(str_of ''pub_key'', JStr (str_of ''PEM 19''))]" and pem = "str_of ''PEM 19''"
       and pk = 19 and sk = 6 and shared = "[2]" and k = "JStr (str_of ''PEM 19'')"
       and ?h1.0 = "opened_handler\<lparr>key := Some [2]\<rparr>"]
  from t o sample_frame_messages(5)
  have 1: "fatal opened_handler (snd (on_frame sample_lib negotiate_frame opened_handler))"
    by simp
  from u n have 2: "state h1 = STATE_CONNECT" by simp
  from v sample_frame_messages(7) sample_dh_fields sample_private_key(2)
  have 3: "on_frame sample_lib dh_frame opened_handler
      = (Ret (), opened_handler\<lparr>key := Some [2]\<rparr>)"
    by simp
  from v k have 4: "state (opened_handler\<lparr>key := Some [2]\<rparr>) = STATE_OPEN"
    using o by simp
  show ?thesis using sample_frame_messages(5) o 1 2 3 4 n k by simp
qed

text \<open>
  Claim C5 does not hold of the code when the configured storage directory is not the
  directory \<^verbatim>\<open>files\<close> of the working directory: \<^verbatim>\<open>process_open\<close> looks for and creates
  \<^verbatim>\<open>files\<close> (lemma \<open>process_open_dirs\<close>), then opens the name under the configured
  directory. With \<^verbatim>\<open>/data/up\<close> configured and absent, \<^verbatim>\<open>files\<close> is created, \<^verbatim>\<open>/data/up\<close>
  is not, and the OPEN fails.
\<close>

theorem configured_root_not_created:
  "storage_dir other_root_handler = str_of ''/data/up''
   \<and> resolve bare_fs (str_of ''/data/up'') = [str_of ''data'', str_of ''up'']
   \<and> process_open sample_lib open_message other_root_handler =
       (Ret False,
        other_root_handler
          \<lparr>fs := bare_fs\<lparr>dirs := {[], [str_of ''srv''], [str_of ''srv'', str_of ''files'']}\<rparr>\<rparr>)
   \<and> [str_of ''data'', str_of ''up'']
       \<notin> dirs (fs (snd (process_open sample_lib open_message other_root_handler)))"
proof -
  have r: "resolve bare_fs (str_of ''/data/up'') = [str_of ''data'', str_of ''up'']"
    by (simp add: resolve_def str_of_def)
  have p: "process_open sample_lib open_message other_root_handler =
       (Ret False,
        other_root_handler
          \<lparr>fs := bare_fs\<lparr>dirs := {[], [str_of ''srv''], [str_of ''srv'', str_of ''files'']}\<rparr>\<rparr>)"
    by (simp add: process_open_def other_root_handler_def connection_made_def ClientHandler_def send_def Let_def open_message_def
        dict_has_def dict_get_def re_sub_nonword_def sanitize_def is_word_def os_path_join_def
        os_path_exists_def os_mkdir_def resolve_def bare_fs_def open_wb_def str_of_def
        insert_commute)
  show ?thesis
    by (simp add: r p) (simp add: other_root_handler_def connection_made_def ClientHandler_def send_def Let_def str_of_def)
qed

text \<open>
  Claim C6. On candidate lists, \<^verbatim>\<open>choose_algo\<close> selects each category by its fixed
  priority (ChaCha20 before AES, GCM before CBC, SHA-512 before SHA-256) and returns
  \<^verbatim>\<open>False\<close> at the first category with no supported candidate, leaving that category and
  the later ones as they were. Offering AES and ChaCha20, CBC and GCM, SHA-256 and SHA-512
  gives ChaCha20, GCM and SHA-512; offering only DES fails with no field assigned, whatever
  the modes and digests are.
\<close>

theorem choose_algo_priority:
  "choose_algo (JArr cs) (JArr ms) (JArr hs) h =
     (case by_priority (str_of ''ChaCha20'') (str_of ''AES'') cs of
        None \<Rightarrow> (Ret False, h)
      | Some c \<Rightarrow>
          (case by_priority (str_of ''GCM'') (str_of ''CBC'') ms of
             None \<Rightarrow> (Ret False, h\<lparr>cipher := Some c\<rparr>)
           | Some m \<Rightarrow>
               (case by_priority (str_of ''SHA-512'') (str_of ''SHA-256'') hs of
                  None \<Rightarrow> (Ret False, h\<lparr>cipher := Some c, mode := Some m\<rparr>)
                | Some d \<Rightarrow>
                    (Ret True,
                     h\<lparr>cipher := Some c, mode := Some m, hash_function := Some d\<rparr>))))
   \<and> choose_algo (JArr [JStr (str_of ''AES''), JStr (str_of ''ChaCha20'')])
       (JArr [JStr (str_of ''CBC''), JStr (str_of ''GCM'')])
       (JArr [JStr (str_of ''SHA-256''), JStr (str_of ''SHA-512'')]) h =
     (Ret True, h\<lparr>cipher := Some (str_of ''ChaCha20''), mode := Some (str_of ''GCM''),
        hash_function := Some (str_of ''SHA-512'')\<rparr>)
   \<and> choose_algo (JArr [JStr (str_of ''DES'')]) modes hash_functions h = (Ret False, h)"
proof (intro conjI)
  show "choose_algo (JArr cs) (JArr ms) (JArr hs) h =
     (case by_priority (str_of ''ChaCha20'') (str_of ''AES'') cs of
        None \<Rightarrow> (Ret False, h)
      | Some c \<Rightarrow>
          (case by_priority (str_of ''GCM'') (str_of ''CBC'') ms of
             None \<Rightarrow> (Ret False, h\<lparr>cipher := Some c\<rparr>)
           | Some m \<Rightarrow>
               (case by_priority (str_of ''SHA-512'') (str_of ''SHA-256'') hs of
                  None \<Rightarrow> (Ret False, h\<lparr>cipher := Some c, mode := Some m\<rparr>)
                | Some d \<Rightarrow>
                    (Ret True,
                     h\<lparr>cipher := Some c, mode := Some m, hash_function := Some d\<rparr>))))"
    by (simp add: choose_algo_def choose_from_JArr split: option.splits)
  show "choose_algo (JArr [JStr (str_of ''AES''), JStr (str_of ''ChaCha20'')])
       (JArr [JStr (str_of ''CBC''), JStr (str_of ''GCM'')])
       (JArr [JStr (str_of ''SHA-256''), JStr (str_of ''SHA-512'')]) h =
     (Ret True, h\<lparr>cipher := Some (str_of ''ChaCha20''), mode := Some (str_of ''GCM''),
        hash_function := Some (str_of ''SHA-512'')\<rparr>)"
    by (simp add: choose_algo_def choose_from_JArr by_priority_def)
  show "choose_algo (JArr [JStr (str_of ''DES'')]) modes hash_functions h = (Ret False, h)"
    by (simp add: choose_algo_def choose_from_JArr by_priority_def str_of_def)
qed

text \<open>
  Claim C7, as the code has it. In state CONNECT a NEGOTIATE message that lacks one of the
  three lists fails and nothing is sent. With the three lists present, a CIPHER_CHOSEN
  response is sent whether or not the selection succeeded; it carries the fields of the
  handler after the selection: a category chosen by this message has the chosen value,
  the category that failed and the later ones keep what the handler held before (nothing
  in a handler that never negotiated). A failed selection then gets the handling of a
  fatal outcome.
\<close>

theorem negotiate_response:
  "(state h = STATE_CONNECT
    \<and> \<not> (dict_has d (str_of ''ciphers'') \<and> dict_has d (str_of ''modes'')
          \<and> dict_has d (str_of ''sinteses'')) \<longrightarrow>
      process_negotiate d h = (Ret False, h))
   \<and> (state h = STATE_CONNECT
       \<and> dict_has d (str_of ''ciphers'') \<and> dict_has d (str_of ''modes'')
       \<and> dict_has d (str_of ''sinteses'')
       \<and> dict_get d (str_of ''ciphers'') = JArr cs \<and> dict_get d (str_of ''modes'') = JArr ms
       \<and> dict_get d (str_of ''sinteses'') = JArr hs
       \<and> partial_choice cs ms hs = (c, m, dg) \<longrightarrow>
      process_negotiate d h =
        (Ret (dg \<noteq> None),
         send (msg_CIPHER_CHOSEN (chosen_or c (cipher h)) (chosen_or m (mode h))
                 (chosen_or dg (hash_function h)))
           (h\<lparr>cipher := chosen_or c (cipher h), mode := chosen_or m (mode h),
              hash_function := chosen_or dg (hash_function h)\<rparr>)))
   \<and> (frame_message L frame (str_of ''NEGOTIATE'') d
       \<and> process_negotiate d h = (Ret False, h1) \<longrightarrow>
      on_frame L frame h = (Ret (), fail_closed h1) \<and> fatal h1 (fail_closed h1))
   \<and> chosen_or c None = c"
proof (intro conjI impI)
  assume "state h = STATE_CONNECT
    \<and> \<not> (dict_has d (str_of ''ciphers'') \<and> dict_has d (str_of ''modes'')
          \<and> dict_has d (str_of ''sinteses''))"
  then show "process_negotiate d h = (Ret False, h)"
    by (simp add: process_negotiate_def)
next
  assume a: "state h = STATE_CONNECT
       \<and> dict_has d (str_of ''ciphers'') \<and> dict_has d (str_of ''modes'')
       \<and> dict_has d (str_of ''sinteses'')
       \<and> dict_get d (str_of ''ciphers'') = JArr cs \<and> dict_get d (str_of ''modes'') = JArr ms
       \<and> dict_get d (str_of ''sinteses'') = JArr hs
       \<and> partial_choice cs ms hs = (c, m, dg)"
  then have p: "partial_choice cs ms hs = (c, m, dg)" by simp
  show "process_negotiate d h =
        (Ret (dg \<noteq> None),
         send (msg_CIPHER_CHOSEN (chosen_or c (cipher h)) (chosen_or m (mode h))
                 (chosen_or dg (hash_function h)))
           (h\<lparr>cipher := chosen_or c (cipher h), mode := chosen_or m (mode h),
              hash_function := chosen_or dg (hash_function h)\<rparr>))"
    using a by (simp add: process_negotiate_def choose_algo_fields [OF p])
next
  assume a: "frame_message L frame (str_of ''NEGOTIATE'') d
       \<and> process_negotiate d h = (Ret False, h1)"
  then show "on_frame L frame h = (Ret (), fail_closed h1)"
    by (simp add: on_frame_message [OF conjunct1 [OF a]] dispatch_NEGOTIATE)
  show "fatal h1 (fail_closed h1)" by (rule fatal_fail_closed)
next
  show "chosen_or c None = c" by (simp add: chosen_or_def split: option.splits)
qed

text \<open>
  The claim as written fails for a second NEGOTIATE message: the sample handler stays in
  CONNECT after its first negotiation, and a second one that fails at the mode is answered
  with the mode and digest of the first, not with the cipher alone.
\<close>

theorem stale_choice_echoed:
  "on_frame sample_lib negotiate_frame sample_handler = (Ret (), negotiated_handler)
   \<and> state negotiated_handler = STATE_CONNECT
   \<and> frame_message sample_lib negotiate_frame_2 (str_of ''NEGOTIATE'') negotiate_message_2
   \<and> partial_choice [JStr (str_of ''AES'')] [JStr (str_of ''ECB'')] []
       = (Some (str_of ''AES''), None, None)
   \<and> transport_out (snd (on_frame sample_lib negotiate_frame_2 negotiated_handler)) =
       transport_out sample_handler @
       [msg_CIPHER_CHOSEN (Some (str_of ''ChaCha20'')) (Some (str_of ''GCM''))
          (Some (str_of ''SHA-512'')),
        msg_CIPHER_CHOSEN (Some (str_of ''AES'')) (Some (str_of ''GCM''))
          (Some (str_of ''SHA-512'')),
        msg_ERROR]
   \<and> msg_CIPHER_CHOSEN (Some (str_of ''AES'')) (Some (str_of ''GCM''))
          (Some (str_of ''SHA-512''))
       \<noteq> msg_CIPHER_CHOSEN (Some (str_of ''AES'')) None None"
proof (intro conjI)
  show "on_frame sample_lib negotiate_frame sample_handler = (Ret (), negotiated_handler)"
    by (simp add: on_frame_message [OF sample_frame_messages(5)] dispatch_NEGOTIATE
        sample_negotiate)
  show "state negotiated_handler = STATE_CONNECT"
    by (simp add: negotiated_handler_def sample_handler_def connection_made_def ClientHandler_def send_def Let_def)
  show "frame_message sample_lib negotiate_frame_2 (str_of ''NEGOTIATE'') negotiate_message_2"
    by (rule sample_frame_messages(6))
  show "partial_choice [JStr (str_of ''AES'')] [JStr (str_of ''ECB'')] []
       = (Some (str_of ''AES''), None, None)"
    by (rule sample_choices(2))
  show "transport_out (snd (on_frame sample_lib negotiate_frame_2 negotiated_handler)) =
       transport_out sample_handler @
       [msg_CIPHER_CHOSEN (Some (str_of ''ChaCha20'')) (Some (str_of ''GCM''))
          (Some (str_of ''SHA-512'')),
        msg_CIPHER_CHOSEN (Some (str_of ''AES'')) (Some (str_of ''GCM''))
          (Some (str_of ''SHA-512'')),
        msg_ERROR]"
    by (simp add: on_frame_message [OF sample_frame_messages(6)] dispatch_NEGOTIATE
        sample_negotiate_2 fail_closed_def send_def)
  show "msg_CIPHER_CHOSEN (Some (str_of ''AES'')) (Some (str_of ''GCM''))
          (Some (str_of ''SHA-512''))
       \<noteq> msg_CIPHER_CHOSEN (Some (str_of ''AES'')) None None"
    by (simp add: msg_CIPHER_CHOSEN_def opt_json_def)
qed

theorem negotiate_response_witness:
  "state sample_handler = STATE_CONNECT
   \<and> process_negotiate [] sample_handler = (Ret False, sample_handler)
   \<and> process_negotiate negotiate_message sample_handler = (Ret True, negotiated_handler)
   \<and> state negotiated_handler = STATE_CONNECT
   \<and> frame_message sample_lib negotiate_frame_2 (str_of ''NEGOTIATE'') negotiate_message_2
   \<and> fst (process_negotiate negotiate_message_2 negotiated_handler) = Ret False
   \<and> fatal (snd (process_negotiate negotiate_message_2 negotiated_handler))
       (snd (on_frame sample_lib negotiate_frame_2 negotiated_handler))"
proof -
  have s: "state sample_handler = STATE_CONNECT" "state negotiated_handler = STATE_CONNECT"
    "cipher sample_handler = None" "mode sample_handler = None"
    "hash_function sample_handler = None"
    by (simp_all add: negotiated_handler_def sample_handler_def connection_made_def ClientHandler_def send_def Let_def)
  have e: "\<not> (dict_has [] (str_of ''ciphers'') \<and> dict_has [] (str_of ''modes'')
          \<and> dict_has [] (str_of ''sinteses''))"
    by (simp add: dict_has_def)
  note t1 = negotiate_response [where h = sample_handler and d = "[]"]
  note t2 = negotiate_response [where h = sample_handler and d = negotiate_message
      and cs = "[JStr (str_of ''AES''), JStr (str_of ''ChaCha20'')]"
      and ms = "[JStr (str_of ''CBC''), JStr (str_of ''GCM'')]"
      and hs = "[JStr (str_of ''SHA-256''), JStr (str_of ''SHA-512'')]"
      and c = "Some (str_of ''ChaCha20'')" and m = "Some (str_of ''GCM'')"
      and dg = "Some (str_of ''SHA-512'')"]
  note t3 = negotiate_response [where h = negotiated_handler and d = negotiate_message_2
      and L = sample_lib and frame = negotiate_frame_2
      and ?h1.0 = "snd (process_negotiate negotiate_message_2 negotiated_handler)"]
  from t1 s(1) e have 1: "process_negotiate [] sample_handler = (Ret False, sample_handler)"
    by blast
  from t2 s sample_negotiate_fields(1-6) sample_choices(1)
  have 2: "process_negotiate negotiate_message sample_handler = (Ret True, negotiated_handler)"
    by (simp add: chosen_or_def negotiated_handler_def send_def sample_handler_def
        connection_made_def ClientHandler_def Let_def)
  have 3: "process_negotiate negotiate_message_2 negotiated_handler
      = (Ret False, snd (process_negotiate negotiate_message_2 negotiated_handler))"
    by (simp add: sample_negotiate_2)
  from t3 3 sample_frame_messages(6)
  have 4: "fatal (snd (process_negotiate negotiate_message_2 negotiated_handler))
       (snd (on_frame sample_lib negotiate_frame_2 negotiated_handler))"
    by simp
  have 5: "fst (process_negotiate negotiate_message_2 negotiated_handler) = Ret False"
    by (simp add: sample_negotiate_2)
  show ?thesis using s(1,2) 1 2 4 5 sample_frame_messages(6) by simp
qed

text \<open>
  Claim C8 holds up to one name. The sanitized name is the input with exactly its word
  characters and dots kept and has no separator (lemmas \<open>sanitize_keeps\<close> and
  \<open>sanitize_no_separator\<close>), and the joined path is the storage directory itself or an
  entry of it unless the sanitized name is \<^verbatim>\<open>..\<close> (lemma \<open>sanitized_path\<close>). The name
  \<^verbatim>\<open>..\<close> passes the sanitization unchanged: the joined path is then the parent of the
  storage directory, outside of it, and the OPEN fails only because that path is a
  directory.
\<close>

theorem dot_dot_leaves_storage_root:
  "re_sub_nonword sample_lib (JStr (str_of ''..'')) = Inr (str_of ''..'')
   \<and> os_path_join (storage_dir sample_handler) (str_of ''..'') = str_of ''/srv/files/..''
   \<and> resolve sample_fs (storage_dir sample_handler) = [str_of ''srv'', str_of ''files'']
   \<and> resolve sample_fs (str_of ''/srv/files/..'') = [str_of ''srv'']
   \<and> \<not> prefix (resolve sample_fs (storage_dir sample_handler))
          (resolve sample_fs (os_path_join (storage_dir sample_handler) (str_of ''..'')))
   \<and> process_open sample_lib dots_message sample_handler = (Ret False, sample_handler)"
proof -
  have sd: "storage_dir sample_handler = str_of ''/srv/files''"
    by (simp add: sample_handler_def connection_made_def ClientHandler_def send_def Let_def)
  have 1: "re_sub_nonword sample_lib (JStr (str_of ''..'')) = Inr (str_of ''..'')"
    by (simp add: re_sub_nonword_def sanitize_def str_of_def)
  have 2: "os_path_join (str_of ''/srv/files'') (str_of ''..'') = str_of ''/srv/files/..''"
    by (simp add: os_path_join_def str_of_def)
  have 3: "resolve sample_fs (str_of ''/srv/files'') = [str_of ''srv'', str_of ''files'']"
    by (simp add: resolve_def str_of_def)
  have 4: "resolve sample_fs (str_of ''/srv/files/..'') = [str_of ''srv'']"
    by (simp add: resolve_def str_of_def)
  have 5: "process_open sample_lib dots_message sample_handler = (Ret False, sample_handler)"
    by (simp add: process_open_def sample_handler_def connection_made_def ClientHandler_def send_def Let_def dots_message_def
        dict_has_def dict_get_def re_sub_nonword_def sanitize_def is_word_def os_path_join_def
        os_path_exists_def resolve_def sample_fs_def open_wb_def str_of_def)
  show ?thesis by (simp add: sd 1 2 3 4 5)
qed

text \<open>
  Claim C9. A DATA message in a state other than OPEN and DATA, and an OPEN message in a
  state other than CONNECT (so also a second OPEN, after one that succeeded), get the
  handling of a fatal outcome, and the file system stays as it was: no file is created.
\<close>

theorem out_of_state_rejected:
  "(frame_message L frame (str_of ''DATA'') d \<and> state h \<noteq> STATE_OPEN \<and> state h \<noteq> STATE_DATA \<longrightarrow>
      fst (on_frame L frame h) = Ret () \<and> fatal h (snd (on_frame L frame h))
      \<and> fs (snd (on_frame L frame h)) = fs h)
   \<and> (frame_message L frame (str_of ''OPEN'') d \<and> state h \<noteq> STATE_CONNECT \<longrightarrow>
      fst (on_frame L frame h) = Ret () \<and> fatal h (snd (on_frame L frame h))
      \<and> fs (snd (on_frame L frame h)) = fs h)
   \<and> (process_open L d0 h0 = (Ret True, h) \<and> frame_message L frame (str_of ''OPEN'') d \<longrightarrow>
      fst (on_frame L frame h) = Ret () \<and> fatal h (snd (on_frame L frame h))
      \<and> fs (snd (on_frame L frame h)) = fs h)"
proof (intro conjI impI)
  assume a: "frame_message L frame (str_of ''DATA'') d \<and> state h \<noteq> STATE_OPEN \<and> state h \<noteq> STATE_DATA"
  then have "process_data L d h = (Ret False, h)" by (simp add: process_data_def)
  with a have r: "on_frame L frame h = (Ret (), fail_closed h)"
    by (simp add: on_frame_message [OF conjunct1 [OF a]] dispatch_DATA)
  show "fst (on_frame L frame h) = Ret ()" "fatal h (snd (on_frame L frame h))"
    "fs (snd (on_frame L frame h)) = fs h"
    by (simp_all add: r fatal_fail_closed fs_fail_closed)
next
  assume a: "frame_message L frame (str_of ''OPEN'') d \<and> state h \<noteq> STATE_CONNECT"
  then have "process_open L d h = (Ret False, h)" by (simp add: process_open_def)
  with a have r: "on_frame L frame h = (Ret (), fail_closed h)"
    by (simp add: on_frame_message [OF conjunct1 [OF a]] dispatch_OPEN)
  show "fst (on_frame L frame h) = Ret ()" "fatal h (snd (on_frame L frame h))"
    "fs (snd (on_frame L frame h)) = fs h"
    by (simp_all add: r fatal_fail_closed fs_fail_closed)
next
  assume a: "process_open L d0 h0 = (Ret True, h) \<and> frame_message L frame (str_of ''OPEN'') d"
  then have "state h = STATE_OPEN" using process_open_True_state by blast
  then have "process_open L d h = (Ret False, h)" by (simp add: process_open_def)
  with a have r: "on_frame L frame h = (Ret (), fail_closed h)"
    by (simp add: on_frame_message [OF conjunct2 [OF a]] dispatch_OPEN)
  show "fst (on_frame L frame h) = Ret ()" "fatal h (snd (on_frame L frame h))"
    "fs (snd (on_frame L frame h)) = fs h"
    by (simp_all add: r fatal_fail_closed fs_fail_closed)
qed

theorem out_of_state_rejected_witness:
  "frame_message sample_lib data_frame_1 (str_of ''DATA'') data_message_1
   \<and> state sample_handler = STATE_CONNECT
   \<and> fatal sample_handler (snd (on_frame sample_lib data_frame_1 sample_handler))
   \<and> fs (snd (on_frame sample_lib data_frame_1 sample_handler)) = sample_fs
   \<and> process_open sample_lib open_message sample_handler = (Ret True, opened_handler)
   \<and> frame_message sample_lib open_frame (str_of ''OPEN'') open_message
   \<and> fatal opened_handler (snd (on_frame sample_lib open_frame opened_handler))"
proof -
  have s: "state sample_handler = STATE_CONNECT" "fs sample_handler = sample_fs"
    by (simp_all add: sample_handler_def connection_made_def ClientHandler_def send_def Let_def)
  show ?thesis
    using out_of_state_rejected [of sample_lib data_frame_1 data_message_1 sample_handler]
      out_of_state_rejected [of sample_lib open_frame open_message opened_handler
        open_message sample_handler]
      sample_frame_messages(1,2) sample_open s
    by simp
qed

text \<open>
  Claim C10. The handler holds an open file exactly when its state is OPEN or DATA: this
  holds for a new handler and is kept by \<^verbatim>\<open>process_open\<close>, \<^verbatim>\<open>process_data\<close>,
  \<^verbatim>\<open>process_close\<close>, the handling of a fatal outcome, every frame, every chunk and every
  sequence of chunks, whether the call returns or raises. So no file is open in CONNECT
  and CLOSE, and a DATA message with a payload that decodes, in state OPEN or DATA on a
  file system that accepts the write, is written to the open file.
\<close>

theorem handle_iff_open_or_data:
  "handle_inv (connection_made p0 g0 sk0 pub_key (ClientHandler sd F0))
   \<and> (handle_inv h \<longrightarrow>
        handle_inv (snd (process_open L d h)) \<and> handle_inv (snd (process_data L d h))
        \<and> handle_inv (snd (process_close d h)) \<and> handle_inv (fail_closed h)
        \<and> handle_inv (snd (on_frame L frame h)) \<and> handle_inv (snd (data_received L data h))
        \<and> handle_inv (snd (deliver L chunks h)))
   \<and> (handle_inv h \<and> (state h = STATE_CONNECT \<or> state h = STATE_CLOSE) \<longrightarrow>
        file_handle h = None)
   \<and> (handle_inv h \<and> (state h = STATE_OPEN \<or> state h = STATE_DATA)
       \<and> dict_get d (str_of ''data'') = JStr p \<and> b64decode L p = Some bdata
       \<and> \<not> full (fs h) \<longrightarrow>
        (\<exists>q F. file_handle h = Some q \<and> file_write (fs h) q bdata = Some F
           \<and> process_data L d h = (Ret True, h\<lparr>state := STATE_DATA, fs := F\<rparr>)))"
proof (intro conjI impI)
  show "handle_inv (connection_made p0 g0 sk0 pub_key (ClientHandler sd F0))"
    by (rule handle_inv_init)
next
  assume a: "handle_inv h"
  show "handle_inv (snd (process_open L d h))" using a by (rule process_open_inv)
  show "handle_inv (snd (process_data L d h))" using a by (rule process_data_inv)
  show "handle_inv (snd (process_close d h))" by (rule process_close_inv)
  show "handle_inv (fail_closed h)" by (rule fail_closed_inv)
  show "handle_inv (snd (on_frame L frame h))" using a by (rule on_frame_inv)
  show "handle_inv (snd (data_received L data h))" using a by (rule data_received_inv)
  show "handle_inv (snd (deliver L chunks h))" using a by (rule deliver_inv)
next
  assume "handle_inv h \<and> (state h = STATE_CONNECT \<or> state h = STATE_CLOSE)"
  then show "file_handle h = None" by (auto simp: handle_inv_def)
next
  assume a: "handle_inv h \<and> (state h = STATE_OPEN \<or> state h = STATE_DATA)
       \<and> dict_get d (str_of ''data'') = JStr p \<and> b64decode L p = Some bdata
       \<and> \<not> full (fs h)"
  then show "\<exists>q F. file_handle h = Some q \<and> file_write (fs h) q bdata = Some F
           \<and> process_data L d h = (Ret True, h\<lparr>state := STATE_DATA, fs := F\<rparr>)"
    using process_data_writes [of h d p L bdata] by blast
qed

theorem handle_iff_open_or_data_witness:
  "handle_inv opened_handler
   \<and> handle_inv (snd (on_frame sample_lib data_frame_1 opened_handler))
   \<and> handle_inv (snd (deliver sample_lib [] opened_handler))
   \<and> state opened_handler = STATE_OPEN
   \<and> (\<exists>q F. file_handle opened_handler = Some q
         \<and> file_write (fs opened_handler) q (map of_char ''hello'') = Some F
         \<and> process_data sample_lib data_message_1 opened_handler
            = (Ret True, opened_handler\<lparr>state := STATE_DATA, fs := F\<rparr>))
   \<and> handle_inv sample_handler \<and> state sample_handler = STATE_CONNECT
   \<and> file_handle sample_handler = None"
proof -
  have i: "handle_inv opened_handler"
    by (simp add: handle_inv_def opened_handler_fields)
  have j: "handle_inv sample_handler" "state sample_handler = STATE_CONNECT"
    by (simp_all add: handle_inv_def sample_handler_def connection_made_def ClientHandler_def send_def Let_def)
  note t = handle_iff_open_or_data [where h = opened_handler and L = sample_lib
      and frame = data_frame_1 and chunks = "[]" and d = data_message_1
      and p = "str_of ''aGVsbG8=''" and bdata = "map of_char ''hello''"]
  note u = handle_iff_open_or_data [where h = sample_handler]
  from t i sample_data_fields(1,2) opened_handler_fields(1,3)
  have 1: "handle_inv (snd (on_frame sample_lib data_frame_1 opened_handler))"
    "handle_inv (snd (deliver sample_lib [] opened_handler))"
    "\<exists>q F. file_handle opened_handler = Some q
         \<and> file_write (fs opened_handler) q (map of_char ''hello'') = Some F
         \<and> process_data sample_lib data_message_1 opened_handler
            = (Ret True, opened_handler\<lparr>state := STATE_DATA, fs := F\<rparr>)"
    by simp_all
  from u j have 2: "file_handle sample_handler = None" by simp
  show ?thesis using i j 1 2 opened_handler_fields(1) by simp
qed

end
